theory Spec2Isabelle
  imports Main "HOL-Library.Sublist" "HOL-Library.Multiset"
begin

section \<open>Node pool provisioner: data model\<close>

text \<open>
  The development embeds \<^verbatim>\<open>provisioner/node_pools.go\<close>. A Go string is a
  sequence of bytes and so is a HOL \<^typ>\<open>string\<close>; a byte slice is modelled by the
  same type, so that the conversion \<^verbatim>\<open>[]byte(s)\<close> is the identity.
\<close>

type_synonym bytes = string

text \<open>
  A Go \<^verbatim>\<open>error\<close> value. \<open>Errorf\<close> is an error this package builds itself
  with \<^verbatim>\<open>fmt.Errorf\<close> or \<^verbatim>\<open>errors.New\<close>; \<open>Foreign\<close> is an error
  handed back by a collaborator (the operating system, the AWS adapter, the node pool
  manager, the template engine). Both carry the text their \<^verbatim>\<open>Error()\<close>
  method prints.
\<close>

datatype error = Errorf string | Foreign string

fun Error :: "error \<Rightarrow> string" where
  "Error (Errorf s) = s"
| "Error (Foreign s) = s"

text \<open>
  \<^verbatim>\<open>api.NodePool\<close> and \<^verbatim>\<open>api.Cluster\<close>, with the fields this file reads.
  The discount strategy is a string, as in the API type.
\<close>

record NodePool =
  Name :: string
  Profile :: string
  InstanceType :: string
  DiscountStrategy :: string

record Cluster =
  ID :: string
  Region :: string
  NodePools :: "NodePool list"

text \<open>
  \<^verbatim>\<open>cloudformation.Tag\<close> and \<^verbatim>\<open>cloudformation.Stack\<close>: the SDK's string
  fields are pointers, \<open>None\<close> being the nil pointer. The elements of a tag list and
  of a stack list are taken to be non-nil, as the SDK delivers them.
\<close>

record Tag =
  Key :: "string option"
  Value :: "string option"

record Stack =
  StackName :: "string option"
  Tags :: "Tag list"

definition aws_String :: "string \<Rightarrow> string option" where
  "aws_String s = Some s"

definition aws_StringValue :: "string option \<Rightarrow> string" where
  "aws_StringValue p = (case p of None \<Rightarrow> [] | Some s \<Rightarrow> s)"

subsection \<open>Constants of the file\<close>

definition userDataFileName :: string where
  "userDataFileName = ''userdata.clc.yaml''"

definition stackFileName :: string where
  "stackFileName = ''stack.yaml''"

definition nodePoolTagKeyLegacy :: string where
  "nodePoolTagKeyLegacy = ''NodePool''"

definition nodePoolTagKey :: string where
  "nodePoolTagKey = ''kubernetes.io/node-pool''"

definition nodePoolRoleTagKey :: string where
  "nodePoolRoleTagKey = ''kubernetes.io/role/node-pool''"

definition nodePoolProfileTagKey :: string where
  "nodePoolProfileTagKey = ''kubernetes.io/node-pool/profile''"

section \<open>Tag codec and orphan detection\<close>

text \<open>
  The tag list built in \<^verbatim>\<open>provisionNodePool\<close> (lines 164 to 185). The two
  constants \<^verbatim>\<open>tagNameKubernetesClusterPrefix\<close> and
  \<^verbatim>\<open>resourceLifecycleOwned\<close> are declared in another file of the package and
  are parameters here.
\<close>

definition nodePoolStackTags :: "string \<Rightarrow> string \<Rightarrow> Cluster \<Rightarrow> NodePool \<Rightarrow> Tag list" where
  "nodePoolStackTags clusterPrefix lifecycleOwned cluster nodePool =
     [ \<lparr>Key = aws_String (clusterPrefix @ ID cluster), Value = aws_String lifecycleOwned\<rparr>,
       \<lparr>Key = aws_String nodePoolRoleTagKey, Value = aws_String ''true''\<rparr>,
       \<lparr>Key = aws_String nodePoolTagKey, Value = aws_String (Name nodePool)\<rparr>,
       \<lparr>Key = aws_String nodePoolTagKeyLegacy, Value = aws_String (Name nodePool)\<rparr>,
       \<lparr>Key = aws_String nodePoolProfileTagKey, Value = aws_String (Name nodePool)\<rparr> ]"

text \<open>\<^verbatim>\<open>&api.NodePool{}\<close>: every field is the empty string.\<close>

definition emptyNodePool :: NodePool where
  "emptyNodePool = \<lparr>Name = [], Profile = [], InstanceType = [], DiscountStrategy = []\<rparr>"

text \<open>The loop body of \<^verbatim>\<open>nodePoolStackToNodePool\<close>: two independent tests.\<close>

definition readTag :: "Tag \<Rightarrow> NodePool \<Rightarrow> NodePool" where
  "readTag tag nodePool =
     (let np1 = (if aws_StringValue (Key tag) = nodePoolTagKey
                 then nodePool\<lparr>Name := aws_StringValue (Value tag)\<rparr> else nodePool)
      in if aws_StringValue (Key tag) = nodePoolProfileTagKey
         then np1\<lparr>Profile := aws_StringValue (Value tag)\<rparr> else np1)"

fun readTags :: "Tag list \<Rightarrow> NodePool \<Rightarrow> NodePool" where
  "readTags [] nodePool = nodePool"
| "readTags (tag # tags) nodePool = readTags tags (readTag tag nodePool)"

definition nodePoolStackToNodePool :: "Stack \<Rightarrow> NodePool" where
  "nodePoolStackToNodePool stack = readTags (Tags stack) emptyNodePool"

fun inNodePoolList :: "NodePool \<Rightarrow> NodePool list \<Rightarrow> bool" where
  "inNodePoolList nodePool [] = False"
| "inNodePoolList nodePool (np # nodePools) =
     (if Name np = Name nodePool then True else inNodePoolList nodePool nodePools)"

fun orphanedNodePoolStacks :: "Stack list \<Rightarrow> NodePool list \<Rightarrow> Stack list" where
  "orphanedNodePoolStacks [] nodePools = []"
| "orphanedNodePoolStacks (stack # nodePoolStacks) nodePools =
     (if \<not> inNodePoolList (nodePoolStackToNodePool stack) nodePools
      then stack # orphanedNodePoolStacks nodePoolStacks nodePools
      else orphanedNodePoolStacks nodePoolStacks nodePools)"

section \<open>Collaborators and the provisioner\<close>

text \<open>
  What the file uses and does not define is a parameter of the model, grouped in three
  records. \<open>settings\<close> holds the constants, the pricing table and the node pool
  filter declared elsewhere in the package: \<^verbatim>\<open>awsExt.InstanceInfo()\<close> maps an
  instance type to its regional prices, \<^verbatim>\<open>ignitionBaseTemplate\<close> is a format
  string with one \<^verbatim>\<open>%s\<close> and is given as the function that fills it in.
\<close>

record settings =
  tagNameKubernetesClusterPrefix :: string
  resourceLifecycleOwned :: string
  discountStrategyNone :: string
  discountStrategySpotMaxPrice :: string
  ignitionBaseTemplate :: "string \<Rightarrow> string"
  InstanceInfo :: "string \<rightharpoonup> (string \<rightharpoonup> string)"
  getNonLegacyNodePools :: "Cluster \<Rightarrow> NodePool list"

text \<open>
  A parsed template is a sequence of nodes. \<open>TextNode\<close> is literal text.
  \<open>FieldNode\<close> is a reference to a key of the data by a chain of names:
  \<^verbatim>\<open>{{ .Values.spot_price }}\<close> is \<open>FieldNode [''Values'', ''spot_price'']\<close>.
  \<open>IndexNode\<close> is the builtin \<^verbatim>\<open>index\<close> applied to a map of the data and a
  constant key: \<^verbatim>\<open>{{ index .Values "spot_price" }}\<close> is
  \<open>IndexNode [''Values''] ''spot_price''\<close>. \<open>OtherNode\<close> is any other action,
  a pipeline, a call, a control structure with its body, a chain that leads to a whole
  struct or map, or an index into what is no map of strings, kept as its source text;
  what it prints is left to the engine, a parameter of the model.
\<close>

datatype node =
    TextNode string
  | FieldNode "string list"
  | IndexNode "string list" string
  | OtherNode string

text \<open>
  \<open>host\<close> is the file system and the library functions: \<^verbatim>\<open>os.Stat\<close> (its
  result reduced to \<^verbatim>\<open>IsDir()\<close>), \<^verbatim>\<open>ioutil.ReadFile\<close>,
  \<^verbatim>\<open>path.Join\<close>, the template parser, the engine's execution of the actions
  that are kept as \<open>OtherNode\<close> (on the data, a key being defined or not),
  \<^verbatim>\<open>clcToIgnition\<close>, \<^verbatim>\<open>sha512\<close> and
  \<^verbatim>\<open>base64.StdEncoding.EncodeToString\<close>.
\<close>

record host =
  os_Stat :: "string \<Rightarrow> error + bool"
  ioutil_ReadFile :: "string \<Rightarrow> error + string"
  path_Join :: "string \<Rightarrow> string \<Rightarrow> string"
  template_Parse :: "string \<Rightarrow> error + node list"
  template_Action :: "string \<Rightarrow> (string list \<rightharpoonup> string) \<Rightarrow> error + string"
  clcToIgnition :: "bytes \<Rightarrow> error + bytes"
  sha512_Sum :: "bytes \<Rightarrow> bytes"
  base64_EncodeToString :: "bytes \<Rightarrow> string"

text \<open>
  \<open>cloud\<close> is the AWS adapter and the node pool manager. Each operation reads and
  changes the provider's state, of an arbitrary type \<open>'w\<close>, and may fail
  (\<open>None\<close> is Go's \<^verbatim>\<open>nil\<close> error). \<^verbatim>\<open>waitForStack\<close> stands for the
  call together with its deadline; a timeout is one of its errors.
\<close>

record 'w cloud =
  createS3Bucket :: "string \<Rightarrow> 'w \<Rightarrow> error option \<times> 'w"
  s3Upload :: "string \<Rightarrow> string \<Rightarrow> bytes \<Rightarrow> 'w \<Rightarrow> error option \<times> 'w"
  applyStack :: "string \<Rightarrow> string \<Rightarrow> string \<Rightarrow> Tag list \<Rightarrow> bool \<Rightarrow> 'w \<Rightarrow> error option \<times> 'w"
  waitForStack :: "string \<Rightarrow> 'w \<Rightarrow> error option \<times> 'w"
  ListStacks :: "(string \<rightharpoonup> string) \<Rightarrow> 'w \<Rightarrow> (error + Stack list) \<times> 'w"
  ScalePool :: "NodePool \<Rightarrow> int \<Rightarrow> 'w \<Rightarrow> error option \<times> 'w"
  DeleteStack :: "string \<Rightarrow> 'w \<Rightarrow> error option \<times> 'w"

text \<open>\<^verbatim>\<open>AWSNodePoolProvisioner\<close>, the receiver \<open>n\<close> of every method.\<close>

record 'w provisioner =
  settings :: settings
  host :: host
  cloud :: "'w cloud"
  bucketName :: string
  cfgBaseDir :: string
  Cluster :: Cluster

subsection \<open>The trace of calls\<close>

text \<open>
  To state in which order the collaborators are called, the model keeps, next to the
  provider's state, the list of the calls made so far, each with the error it returned.
\<close>

datatype call =
    Call_createS3Bucket string
  | Call_s3Upload string string bytes
  | Call_applyStack string string "Tag list"
  | Call_waitForStack string
  | Call_ListStacks
  | Call_ScalePool NodePool int
  | Call_DeleteStack string

type_synonym event = "call \<times> error option"

type_synonym 'w state = "'w \<times> event list"

definition invoke :: "call \<Rightarrow> ('w \<Rightarrow> error option \<times> 'w) \<Rightarrow> 'w state \<Rightarrow> error option \<times> 'w state" where
  "invoke c f st =
     (case f (fst st) of (r, w') \<Rightarrow> (r, (w', snd st @ [(c, r)])))"

definition invoke_ListStacks ::
  "'w provisioner \<Rightarrow> (string \<rightharpoonup> string) \<Rightarrow> 'w state \<Rightarrow> (error + Stack list) \<times> 'w state" where
  "invoke_ListStacks n tags st =
     (case ListStacks (cloud n) tags (fst st) of
        (Inl e, w') \<Rightarrow> (Inl e, (w', snd st @ [(Call_ListStacks, Some e)]))
      | (Inr stacks, w') \<Rightarrow> (Inr stacks, (w', snd st @ [(Call_ListStacks, None)])))"

section \<open>Reconcile\<close>

text \<open>
  The loop over the orphaned stacks (lines 223 to 237): scale the pool down to zero,
  return at an error; delete the stack, return at an error.
\<close>

fun decommission :: "'w provisioner \<Rightarrow> Stack list \<Rightarrow> 'w state \<Rightarrow> error option \<times> 'w state" where
  "decommission n [] st = (None, st)"
| "decommission n (stack # orphaned) st =
     (let nodePool = nodePoolStackToNodePool stack in
      case invoke (Call_ScalePool nodePool 0) (ScalePool (cloud n) nodePool 0) st of
        (Some err, st1) \<Rightarrow> (Some err, st1)
      | (None, st1) \<Rightarrow>
          (case invoke (Call_DeleteStack (aws_StringValue (StackName stack)))
                  (DeleteStack (cloud n) (aws_StringValue (StackName stack))) st1 of
             (Some err, st2) \<Rightarrow> (Some err, st2)
           | (None, st2) \<Rightarrow> decommission n orphaned st2))"

text \<open>The tag filter of \<^verbatim>\<open>Reconcile\<close>, a Go map literal of two entries.\<close>

definition reconcileTags :: "'w provisioner \<Rightarrow> (string \<rightharpoonup> string)" where
  "reconcileTags n =
     [tagNameKubernetesClusterPrefix (settings n) @ ID (Cluster n)
        \<mapsto> resourceLifecycleOwned (settings n),
      nodePoolRoleTagKey \<mapsto> ''true'']"

definition Reconcile :: "'w provisioner \<Rightarrow> 'w state \<Rightarrow> error option \<times> 'w state" where
  "Reconcile n st =
     (let tags = reconcileTags n
      in case invoke_ListStacks n tags st of
           (Inl err, st1) \<Rightarrow> (Some err, st1)
         | (Inr nodePoolStacks, st1) \<Rightarrow>
             decommission n (orphanedNodePoolStacks nodePoolStacks (NodePools (Cluster n))) st1)"

text \<open>
  A property of a list of events: every call of \<^verbatim>\<open>DeleteStack\<close> in it stands
  right after a call of \<^verbatim>\<open>ScalePool\<close> to size zero that returned no error, for
  the node pool of a stack of \<open>orph\<close> with the name that is deleted. \<open>prev\<close>
  is the event before the list.
\<close>

fun drainedFirst :: "Stack list \<Rightarrow> event option \<Rightarrow> event list \<Rightarrow> bool" where
  "drainedFirst orph prev [] = True"
| "drainedFirst orph prev (ev # evs) =
     ((case fst ev of
         Call_DeleteStack name \<Rightarrow>
           (\<exists>stack\<in>set orph. name = aws_StringValue (StackName stack) \<and>
              prev = Some (Call_ScalePool (nodePoolStackToNodePool stack) 0, None))
       | _ \<Rightarrow> True) \<and> drainedFirst orph (Some ev) evs)"

section \<open>Template rendering and publishing\<close>

text \<open>
  The data a template is executed on: a key, written as the path of its reference, is
  defined or not. \<open>userDataParams\<close> and \<open>stackParams\<close> are the two structs of
  the file, with the fields of cluster and node pool that the records above have.
\<close>

type_synonym data = "string list \<rightharpoonup> string"

type_synonym Values = "string \<rightharpoonup> string"

definition userDataParams :: "Cluster \<Rightarrow> NodePool \<Rightarrow> Values \<Rightarrow> data" where
  "userDataParams cluster nodePool vals key =
     (case key of
        [s, f] \<Rightarrow>
          (if s = ''Cluster'' then map_of [(''ID'', ID cluster), (''Region'', Region cluster)] f
           else if s = ''NodePool'' then
             map_of [(''Name'', Name nodePool), (''Profile'', Profile nodePool),
                     (''InstanceType'', InstanceType nodePool),
                     (''DiscountStrategy'', DiscountStrategy nodePool)] f
           else if s = ''Values'' then vals f
           else None)
      | _ \<Rightarrow> None)"

definition stackParams :: "Cluster \<Rightarrow> NodePool \<Rightarrow> string \<Rightarrow> Values \<Rightarrow> data" where
  "stackParams cluster nodePool userData vals key =
     (if key = [''UserData''] then Some userData else userDataParams cluster nodePool vals key)"

text \<open>
  Modelled from the spec: the execution of a parsed template by the template engine
  (Go's \<^verbatim>\<open>text/template\<close>, a library and not part of the sources). The spec
  calls it a strict-key-lookup engine: referencing an undefined key is a rendering
  failure, never a silent empty substitution. That is the engine's mode
  \<^verbatim>\<open>missingkey=error\<close>, which \<^verbatim>\<open>renderTemplate\<close> selects; in its other two
  modes a missing key prints \<^verbatim>\<open><no value>\<close> or the empty string. The mode
  governs the references by a chain of names only. The builtin \<^verbatim>\<open>index\<close>, as
  the library documents it, gives the element of the map under the key and the zero
  value of the element type, for a map of strings the empty string, when the map has
  no such key, in every mode. The execution stops at the first node that fails.
\<close>

datatype missingkey = MissingKeyDefault | MissingKeyZero | MissingKeyError

definition evalNode ::
  "(string \<Rightarrow> data \<Rightarrow> error + string) \<Rightarrow> missingkey \<Rightarrow> node \<Rightarrow> data \<Rightarrow> error + string" where
  "evalNode action opt nd d =
     (case nd of
        TextNode s \<Rightarrow> Inr s
      | FieldNode key \<Rightarrow>
          (case d key of
             Some v \<Rightarrow> Inr v
           | None \<Rightarrow>
               (case opt of
                  MissingKeyError \<Rightarrow> Inl (Foreign ''map has no entry for key'')
                | MissingKeyZero \<Rightarrow> Inr []
                | MissingKeyDefault \<Rightarrow> Inr ''<no value>''))
      | IndexNode m k \<Rightarrow>
          (case d (m @ [k]) of Some v \<Rightarrow> Inr v | None \<Rightarrow> Inr [])
      | OtherNode src \<Rightarrow> action src d)"

fun template_Execute ::
  "(string \<Rightarrow> data \<Rightarrow> error + string) \<Rightarrow> missingkey \<Rightarrow> node list \<Rightarrow> data \<Rightarrow> error + string" where
  "template_Execute action opt [] d = Inr []"
| "template_Execute action opt (nd # t) d =
     (case evalNode action opt nd d of
        Inl err \<Rightarrow> Inl err
      | Inr v \<Rightarrow>
          (case template_Execute action opt t d of
             Inl err \<Rightarrow> Inl err
           | Inr out \<Rightarrow> Inr (v @ out)))"

definition renderTemplate :: "host \<Rightarrow> string \<Rightarrow> data \<Rightarrow> error + string" where
  "renderTemplate h templateFile d =
     (case ioutil_ReadFile h templateFile of
        Inl err \<Rightarrow> Inl err
      | Inr content \<Rightarrow>
          (case template_Parse h content of
             Inl err \<Rightarrow> Inl err
           | Inr t \<Rightarrow>
               (case template_Execute (template_Action h) MissingKeyError t d of
                  Inl err \<Rightarrow> Inl err
                | Inr out \<Rightarrow> Inr out)))"

text \<open>\<^verbatim>\<open>hex.EncodeToString\<close>: two lower-case hexadecimal digits for each byte.\<close>

definition hexdigit :: "nat \<Rightarrow> char" where
  "hexdigit d = ''0123456789abcdef'' ! d"

definition hex_EncodeToString :: "bytes \<Rightarrow> string" where
  "hex_EncodeToString bs =
     concat (map (\<lambda>b. [hexdigit (of_char b div 16), hexdigit (of_char b mod 16)]) bs)"

text \<open>
  \<^verbatim>\<open>uploadUserDataToS3\<close>. The write to the hasher never returns an error
  (\<^verbatim>\<open>hash.Hash\<close> guarantees it), so that branch of the source is left out.
\<close>

definition uploadUserDataToS3 ::
  "'w provisioner \<Rightarrow> bytes \<Rightarrow> string \<Rightarrow> 'w state \<Rightarrow> (error + string) \<times> 'w state" where
  "uploadUserDataToS3 n userData bucket st =
     (case invoke (Call_createS3Bucket bucket) (createS3Bucket (cloud n) bucket) st of
        (Some err, st1) \<Rightarrow> (Inl err, st1)
      | (None, st1) \<Rightarrow>
          (let sha = hex_EncodeToString (sha512_Sum (host n) userData);
               objectName = sha @ ''.userdata''
           in case invoke (Call_s3Upload bucket objectName userData)
                     (s3Upload (cloud n) bucket objectName userData) st1 of
                (Some err, st2) \<Rightarrow> (Inl err, st2)
              | (None, st2) \<Rightarrow> (Inr (''s3://'' @ bucket @ ''/'' @ objectName), st2)))"

definition prepareUserData ::
  "'w provisioner \<Rightarrow> string \<Rightarrow> data \<Rightarrow> 'w state \<Rightarrow> (error + string) \<times> 'w state" where
  "prepareUserData n clcPath config st =
     (case renderTemplate (host n) clcPath config of
        Inl err \<Rightarrow> (Inl err, st)
      | Inr rendered \<Rightarrow>
          (case clcToIgnition (host n) rendered of
             Inl err \<Rightarrow>
               (Inl (Errorf (''failed to parse config '' @ clcPath @ '': '' @ Error err)), st)
           | Inr ignCfg \<Rightarrow>
               (case uploadUserDataToS3 n ignCfg (bucketName n) st of
                  (Inl err, st1) \<Rightarrow> (Inl err, st1)
                | (Inr uri, st1) \<Rightarrow>
                    (Inr (base64_EncodeToString (host n) (ignitionBaseTemplate (settings n) uri)),
                     st1))))"

definition generateNodePoolStackTemplate ::
  "'w provisioner \<Rightarrow> NodePool \<Rightarrow> Values \<Rightarrow> 'w state \<Rightarrow> (error + string) \<times> 'w state" where
  "generateNodePoolStackTemplate n nodePool vals st =
     (let nodePoolProfilesPath = path_Join (host n) (cfgBaseDir n) (Profile nodePool)
      in case os_Stat (host n) nodePoolProfilesPath of
           Inl err \<Rightarrow> (Inl err, st)
         | Inr isDir \<Rightarrow>
             if \<not> isDir then
               (Inl (Errorf (''failed to find configuration for node pool profile ''
                       @ [CHR 0x27] @ Profile nodePool @ [CHR 0x27])), st)
             else
               (let userDataPath = path_Join (host n) nodePoolProfilesPath userDataFileName
                in case prepareUserData n userDataPath
                          (userDataParams (Cluster n) nodePool vals) st of
                     (Inl err, st1) \<Rightarrow> (Inl err, st1)
                   | (Inr renderedUserData, st1) \<Rightarrow>
                       (renderTemplate (host n)
                          (path_Join (host n) nodePoolProfilesPath stackFileName)
                          (stackParams (Cluster n) nodePool renderedUserData vals), st1)))"

section \<open>Provisioning\<close>

text \<open>
  The \<^verbatim>\<open>switch\<close> on the discount strategy at the head of
  \<^verbatim>\<open>provisionNodePool\<close> (lines 135 to 154). The Go map \<^verbatim>\<open>values\<close> is a
  reference: what the function writes into it is seen by the caller, so the model
  returns the map next to the result, also when it returns an error.
\<close>

definition resolveSpotPrice :: "'w provisioner \<Rightarrow> NodePool \<Rightarrow> Values \<Rightarrow> error option \<times> Values" where
  "resolveSpotPrice n nodePool vals =
     (let vals1 = vals(''spot_price'' \<mapsto> [])
      in if DiscountStrategy nodePool = discountStrategyNone (settings n) then (None, vals1)
         else if DiscountStrategy nodePool = discountStrategySpotMaxPrice (settings n) then
           (case InstanceInfo (settings n) (InstanceType nodePool) of
              None \<Rightarrow>
                (Some (Errorf (''unknown instance type '' @ InstanceType nodePool)), vals1)
            | Some pricing \<Rightarrow>
                (case pricing (Region (Cluster n)) of
                   None \<Rightarrow>
                     (Some (Errorf (''no price data for region '' @ Region (Cluster n)
                        @ '', instance type '' @ InstanceType nodePool)), vals1)
                 | Some onDemandPrice \<Rightarrow> (None, vals1(''spot_price'' \<mapsto> onDemandPrice))))
         else
           (Some (Errorf (''unsupported node pool discount_strategy ''
              @ DiscountStrategy nodePool)), vals1))"

text \<open>\<^verbatim>\<open>strings.Replace(s, ":", "-", -1)\<close>: every colon becomes a dash.\<close>

definition strings_Replace_colon :: "string \<Rightarrow> string" where
  "strings_Replace_colon s = map (\<lambda>c. if c = CHR '':'' then CHR ''-'' else c) s"

definition provisionNodePool ::
  "'w provisioner \<Rightarrow> NodePool \<Rightarrow> Values \<Rightarrow> 'w state \<Rightarrow> error option \<times> Values \<times> 'w state" where
  "provisionNodePool n nodePool vals st =
     (case resolveSpotPrice n nodePool vals of
        (Some err, vals1) \<Rightarrow> (Some err, vals1, st)
      | (None, vals1) \<Rightarrow>
          (case generateNodePoolStackTemplate n nodePool vals1 st of
             (Inl err, st1) \<Rightarrow> (Some err, vals1, st1)
           | (Inr template, st1) \<Rightarrow>
               (let stackName = ''nodepool-'' @ Name nodePool @ ''-''
                      @ strings_Replace_colon (ID (Cluster n));
                    tags = nodePoolStackTags (tagNameKubernetesClusterPrefix (settings n))
                             (resourceLifecycleOwned (settings n)) (Cluster n) nodePool
                in case invoke (Call_applyStack stackName template tags)
                          (applyStack (cloud n) stackName template [] tags True) st1 of
                     (Some err, st2) \<Rightarrow> (Some err, vals1, st2)
                   | (None, st2) \<Rightarrow>
                       (case invoke (Call_waitForStack stackName)
                               (waitForStack (cloud n) stackName) st2 of
                          (Some err, st3) \<Rightarrow> (Some err, vals1, st3)
                        | (None, st3) \<Rightarrow> (None, vals1, st3)))))"

text \<open>
  The body of the goroutine of \<^verbatim>\<open>Provision\<close>, as it runs when no other goroutine
  touches the map meanwhile: it provisions one pool with the map \<^verbatim>\<open>values\<close> of
  the caller, and wraps an error before sending it.
\<close>

definition provisionTask ::
  "'w provisioner \<Rightarrow> NodePool \<Rightarrow> Values \<Rightarrow> 'w state \<Rightarrow> error option \<times> Values \<times> 'w state" where
  "provisionTask n nodePool vals st =
     (case provisionNodePool n nodePool vals st of
        (Some err, vals1, st1) \<Rightarrow>
          (Some (Errorf (''failed to provision node pool '' @ Name nodePool @ '': ''
             @ Error err)), vals1, st1)
      | (None, vals1, st1) \<Rightarrow> (None, vals1, st1))"

text \<open>\<^verbatim>\<open>strings.Join\<close>.\<close>

fun strings_Join :: "string list \<Rightarrow> string \<Rightarrow> string" where
  "strings_Join [] sep = []"
| "strings_Join [s] sep = s"
| "strings_Join (s # t # ss) sep = s @ sep @ strings_Join (t # ss) sep"

subsection \<open>The goroutines of Provision, step by step\<close>

text \<open>
  \<^verbatim>\<open>Provision\<close> starts one goroutine for each target pool, and all of them work on
  the one map \<^verbatim>\<open>values\<close> of the caller, without synchronisation. To follow them
  the body of a goroutine is cut where it accesses the map. These are the pieces of
  \<^verbatim>\<open>provisionNodePool\<close> and \<^verbatim>\<open>generateNodePoolStackTemplate\<close> between two
  accesses: the switch on the discount strategy (lines 137 to 154, without the two
  writes), which ends in an error, in nothing to write or in the price to write; the
  part of \<^verbatim>\<open>generateNodePoolStackTemplate\<close> that ends with the user data (lines 67
  to 87), which reads the map when the user data template is executed; the rendering
  of the stack template (lines 89 to 98), which reads the map again; and the rest of
  \<^verbatim>\<open>provisionNodePool\<close> (lines 162 to 199), which applies the stack and waits.
\<close>

definition discountSwitch :: "'w provisioner \<Rightarrow> NodePool \<Rightarrow> error + string option" where
  "discountSwitch n nodePool =
     (if DiscountStrategy nodePool = discountStrategyNone (settings n) then Inr None
      else if DiscountStrategy nodePool = discountStrategySpotMaxPrice (settings n) then
        (case InstanceInfo (settings n) (InstanceType nodePool) of
           None \<Rightarrow> Inl (Errorf (''unknown instance type '' @ InstanceType nodePool))
         | Some pricing \<Rightarrow>
             (case pricing (Region (Cluster n)) of
                None \<Rightarrow>
                  Inl (Errorf (''no price data for region '' @ Region (Cluster n)
                     @ '', instance type '' @ InstanceType nodePool))
              | Some onDemandPrice \<Rightarrow> Inr (Some onDemandPrice)))
      else Inl (Errorf (''unsupported node pool discount_strategy ''
              @ DiscountStrategy nodePool)))"

definition prepareStage ::
  "'w provisioner \<Rightarrow> NodePool \<Rightarrow> Values \<Rightarrow> 'w state \<Rightarrow> (error + string \<times> string) \<times> 'w state" where
  "prepareStage n nodePool vals st =
     (let nodePoolProfilesPath = path_Join (host n) (cfgBaseDir n) (Profile nodePool)
      in case os_Stat (host n) nodePoolProfilesPath of
           Inl err \<Rightarrow> (Inl err, st)
         | Inr isDir \<Rightarrow>
             if \<not> isDir then
               (Inl (Errorf (''failed to find configuration for node pool profile ''
                       @ [CHR 0x27] @ Profile nodePool @ [CHR 0x27])), st)
             else
               (case prepareUserData n (path_Join (host n) nodePoolProfilesPath userDataFileName)
                        (userDataParams (Cluster n) nodePool vals) st of
                  (Inl err, st1) \<Rightarrow> (Inl err, st1)
                | (Inr renderedUserData, st1) \<Rightarrow>
                    (Inr (nodePoolProfilesPath, renderedUserData), st1)))"

definition stackStage ::
  "'w provisioner \<Rightarrow> NodePool \<Rightarrow> string \<Rightarrow> string \<Rightarrow> Values \<Rightarrow> error + string" where
  "stackStage n nodePool nodePoolProfilesPath renderedUserData vals =
     renderTemplate (host n) (path_Join (host n) nodePoolProfilesPath stackFileName)
       (stackParams (Cluster n) nodePool renderedUserData vals)"

definition applyStage ::
  "'w provisioner \<Rightarrow> NodePool \<Rightarrow> string \<Rightarrow> 'w state \<Rightarrow> error option \<times> 'w state" where
  "applyStage n nodePool template st =
     (let stackName = ''nodepool-'' @ Name nodePool @ ''-''
            @ strings_Replace_colon (ID (Cluster n));
          tags = nodePoolStackTags (tagNameKubernetesClusterPrefix (settings n))
                   (resourceLifecycleOwned (settings n)) (Cluster n) nodePool
      in case invoke (Call_applyStack stackName template tags)
                (applyStack (cloud n) stackName template [] tags True) st of
           (Some err, st2) \<Rightarrow> (Some err, st2)
         | (None, st2) \<Rightarrow>
             invoke (Call_waitForStack stackName) (waitForStack (cloud n) stackName) st2)"

text \<open>The wrapping of the error in the goroutine (lines 111 to 113).\<close>

definition wrapError :: "NodePool \<Rightarrow> error option \<Rightarrow> error option" where
  "wrapError nodePool r =
     (case r of
        None \<Rightarrow> None
      | Some err \<Rightarrow>
          Some (Errorf (''failed to provision node pool '' @ Name nodePool @ '': ''
            @ Error err)))"

text \<open>
  Where a goroutine stands: before the write of line 135, inside it, at the switch,
  inside the write of line 151 with the price, before the user data, before the stack
  template with the profile path and the user data, before the send of line 114 with
  the error to send, and done.
\<close>

datatype pc =
    AtReset
  | InReset
  | AtSwitch
  | InPrice string
  | AtPrepare
  | AtStack string string
  | AtSend "error option"
  | Finished

text \<open>
  The shared state of a run: the map of the caller; whether a write to it is in
  progress (the flag that the Go runtime keeps in the map); the provider and the trace;
  the goroutines in the order in which they were started, each with its pool and where
  it stands; and the errors sent on the channel so far, in the order sent, each with
  the pool of its goroutine. The channel has room for all, so a send never waits.
\<close>

record 'w conf =
  c_values :: Values
  c_writing :: bool
  c_state :: "'w state"
  c_tasks :: "(NodePool \<times> pc) list"
  c_errorsc :: "(NodePool \<times> error option) list"

text \<open>
  An assignment to a Go map is not atomic. The runtime raises the flag at its start,
  after a check: when the flag is up already, another goroutine is writing, and the
  runtime stops the whole process with the fatal error \<^verbatim>\<open>concurrent map writes\<close>.
  At its end the assignment is in the map and the flag is down. The flag is taken as
  every goroutine sees it at once.

  The map is read when a template is executed. A read while another goroutine is inside
  a write is a data race: the runtime stops the process with the fatal error
  \<^verbatim>\<open>concurrent map read and map write\<close> when it notices, and otherwise the
  read goes on with a map in the middle of a write. The model does not say which, and
  does not follow the run further: it ends in \<open>RacingRead\<close>.
\<close>

datatype halt = FatalError string | RacingRead

definition beginWrite :: "'w conf \<Rightarrow> halt + 'w conf" where
  "beginWrite c =
     (if c_writing c then Inl (FatalError ''concurrent map writes'')
      else Inr (c\<lparr>c_writing := True\<rparr>))"

definition beginRead :: "'w conf \<Rightarrow> halt + 'w conf" where
  "beginRead c = (if c_writing c then Inl RacingRead else Inr c)"

definition endWrite :: "string \<Rightarrow> string \<Rightarrow> 'w conf \<Rightarrow> 'w conf" where
  "endWrite k v c = c\<lparr>c_values := (c_values c)(k \<mapsto> v), c_writing := False\<rparr>"

definition goto :: "nat \<Rightarrow> NodePool \<Rightarrow> pc \<Rightarrow> 'w conf \<Rightarrow> 'w conf" where
  "goto i nodePool pc c = c\<lparr>c_tasks := (c_tasks c)[i := (nodePool, pc)]\<rparr>"

text \<open>
  One step of the goroutine number \<open>i\<close>: its next access to the map or to the channel,
  with what it does on its own up to there. The result is the end of the run, by the
  fatal error of the runtime or by a racing read, or the next state. A goroutine that is done, or a number that is none, leaves
  the state as it is.
\<close>

definition taskStep :: "'w provisioner \<Rightarrow> nat \<Rightarrow> 'w conf \<Rightarrow> halt + 'w conf" where
  "taskStep n i c =
     (if i < length (c_tasks c) then
        (case c_tasks c ! i of
           (nodePool, pc) \<Rightarrow>
             (case pc of
                AtReset \<Rightarrow>
                  (case beginWrite c of
                     Inl h \<Rightarrow> Inl h
                   | Inr c1 \<Rightarrow> Inr (goto i nodePool InReset c1))
              | InReset \<Rightarrow> Inr (goto i nodePool AtSwitch (endWrite ''spot_price'' [] c))
              | AtSwitch \<Rightarrow>
                  (case discountSwitch n nodePool of
                     Inl err \<Rightarrow> Inr (goto i nodePool (AtSend (wrapError nodePool (Some err))) c)
                   | Inr None \<Rightarrow> Inr (goto i nodePool AtPrepare c)
                   | Inr (Some onDemandPrice) \<Rightarrow>
                       (case beginWrite c of
                          Inl h \<Rightarrow> Inl h
                        | Inr c1 \<Rightarrow> Inr (goto i nodePool (InPrice onDemandPrice) c1)))
              | InPrice onDemandPrice \<Rightarrow>
                  Inr (goto i nodePool AtPrepare (endWrite ''spot_price'' onDemandPrice c))
              | AtPrepare \<Rightarrow>
                  (case beginRead c of
                     Inl h \<Rightarrow> Inl h
                   | Inr c1 \<Rightarrow>
                       (case prepareStage n nodePool (c_values c1) (c_state c1) of
                          (Inl err, st1) \<Rightarrow>
                            Inr (goto i nodePool (AtSend (wrapError nodePool (Some err)))
                                   (c1\<lparr>c_state := st1\<rparr>))
                        | (Inr (profilePath, userData), st1) \<Rightarrow>
                            Inr (goto i nodePool (AtStack profilePath userData)
                                   (c1\<lparr>c_state := st1\<rparr>))))
              | AtStack profilePath userData \<Rightarrow>
                  (case beginRead c of
                     Inl h \<Rightarrow> Inl h
                   | Inr c1 \<Rightarrow>
                       (case stackStage n nodePool profilePath userData (c_values c1) of
                          Inl err \<Rightarrow>
                            Inr (goto i nodePool (AtSend (wrapError nodePool (Some err))) c1)
                        | Inr template \<Rightarrow>
                            (case applyStage n nodePool template (c_state c1) of
                               (r, st1) \<Rightarrow>
                                 Inr (goto i nodePool (AtSend (wrapError nodePool r))
                                        (c1\<lparr>c_state := st1\<rparr>)))))
              | AtSend r \<Rightarrow>
                  Inr (goto i nodePool Finished (c\<lparr>c_errorsc := c_errorsc c @ [(nodePool, r)]\<rparr>))
              | Finished \<Rightarrow> Inr c))
      else Inr c)"

text \<open>
  A schedule is the list of the goroutines' numbers in the order in which they take
  their steps; every run of the goroutines is the run of a schedule.
\<close>

fun runSteps :: "'w provisioner \<Rightarrow> nat list \<Rightarrow> 'w conf \<Rightarrow> halt + 'w conf" where
  "runSteps n [] c = Inr c"
| "runSteps n (i # sched) c =
     (case taskStep n i c of
        Inl h \<Rightarrow> Inl h
      | Inr c1 \<Rightarrow> runSteps n sched c1)"

text \<open>The receiving loop of \<^verbatim>\<open>Provision\<close>: the texts of the errors received.\<close>

fun errorStrs :: "(NodePool \<times> error option) list \<Rightarrow> string list" where
  "errorStrs [] = []"
| "errorStrs ((nodePool, None) # results) = errorStrs results"
| "errorStrs ((nodePool, Some err) # results) = Error err # errorStrs results"

text \<open>
  What a call of \<^verbatim>\<open>Provision\<close> comes to under a schedule: the run ends, the
  process stopped by the fatal error or the run not followed beyond a racing read; or
  every goroutine has sent its error, and
  \<^verbatim>\<open>Provision\<close> returns, with the map and the provider as the goroutines left
  them; or the schedule ends while \<^verbatim>\<open>Provision\<close> still waits for a goroutine.
\<close>

datatype 'w result =
    Halted halt
  | Returns "error option" Values "'w state"
  | Waiting

definition startConf :: "'w provisioner \<Rightarrow> Values \<Rightarrow> 'w state \<Rightarrow> 'w conf" where
  "startConf n vals st =
     \<lparr>c_values = vals, c_writing = False, c_state = st,
      c_tasks = map (\<lambda>nodePool. (nodePool, AtReset)) (getNonLegacyNodePools (settings n) (Cluster n)),
      c_errorsc = []\<rparr>"

definition Provision :: "'w provisioner \<Rightarrow> nat list \<Rightarrow> Values \<Rightarrow> 'w state \<Rightarrow> 'w result" where
  "Provision n sched vals st =
     (case runSteps n sched (startConf n vals st) of
        Inl h \<Rightarrow> Halted h
      | Inr c \<Rightarrow>
          if list_all (\<lambda>task. snd task = Finished) (c_tasks c) then
            Returns (if length (errorStrs (c_errorsc c)) > 0
                     then Some (Errorf (strings_Join (errorStrs (c_errorsc c)) '', ''))
                     else None)
              (c_values c) (c_state c)
          else Waiting)"

text \<open>
  The state in which the goroutine number \<open>i\<close> has done, on the map and the provider
  of the state \<open>c\<close>, what \<^verbatim>\<open>provisionTask\<close> says, and has sent its error.
\<close>

definition afterTask :: "'w provisioner \<Rightarrow> nat \<Rightarrow> NodePool \<Rightarrow> 'w conf \<Rightarrow> 'w conf" where
  "afterTask n i nodePool c =
     (case provisionTask n nodePool (c_values c) (c_state c) of
        (r, vals1, st1) \<Rightarrow>
          c\<lparr>c_values := vals1, c_state := st1,
            c_tasks := (c_tasks c)[i := (nodePool, Finished)],
            c_errorsc := c_errorsc c @ [(nodePool, r)]\<rparr>)"

section \<open>An in-memory provider\<close>

text \<open>
  Modelled from the spec: the object store and the stack primitive behind the AWS adapter
  (\<^verbatim>\<open>createS3Bucket\<close>, the S3 uploader, \<^verbatim>\<open>applyStack\<close>,
  \<^verbatim>\<open>ListStacks\<close>, \<^verbatim>\<open>DeleteStack\<close>) and the scaling primitive, none of
  them in the sources. The state is the list of live stacks and the buckets of the
  store. Ensuring a bucket is idempotent, no error if it is already present; an upload
  has overwrite semantics; applying a stack creates it or replaces the stack of that
  name; listing returns every live stack; scaling fails for the pools named in
  \<open>broken\<close>. The theorems that hold for every provider do not use it.
\<close>

record world =
  w_stacks :: "Stack list"
  w_buckets :: "string \<rightharpoonup> (string \<rightharpoonup> bytes)"

definition mem_createS3Bucket :: "string \<Rightarrow> world \<Rightarrow> error option \<times> world" where
  "mem_createS3Bucket bucket w =
     (case w_buckets w bucket of
        None \<Rightarrow> (None, w\<lparr>w_buckets := (w_buckets w)(bucket \<mapsto> Map.empty)\<rparr>)
      | Some objs \<Rightarrow> (None, w))"

definition mem_s3Upload :: "string \<Rightarrow> string \<Rightarrow> bytes \<Rightarrow> world \<Rightarrow> error option \<times> world" where
  "mem_s3Upload bucket k body w =
     (case w_buckets w bucket of
        None \<Rightarrow> (Some (Foreign ''NoSuchBucket''), w)
      | Some objs \<Rightarrow> (None, w\<lparr>w_buckets := (w_buckets w)(bucket \<mapsto> objs(k \<mapsto> body))\<rparr>))"

definition mem_applyStack ::
  "string \<Rightarrow> string \<Rightarrow> string \<Rightarrow> Tag list \<Rightarrow> bool \<Rightarrow> world \<Rightarrow> error option \<times> world" where
  "mem_applyStack name template url tags update w =
     (None, w\<lparr>w_stacks := \<lparr>StackName = Some name, Tags = tags\<rparr>
                # filter (\<lambda>s. aws_StringValue (StackName s) \<noteq> name) (w_stacks w)\<rparr>)"

definition mem_DeleteStack :: "string \<Rightarrow> world \<Rightarrow> error option \<times> world" where
  "mem_DeleteStack name w =
     (None, w\<lparr>w_stacks := filter (\<lambda>s. aws_StringValue (StackName s) \<noteq> name) (w_stacks w)\<rparr>)"

definition mem_ScalePool :: "string list \<Rightarrow> NodePool \<Rightarrow> int \<Rightarrow> world \<Rightarrow> error option \<times> world" where
  "mem_ScalePool broken nodePool k w =
     (if Name nodePool \<in> set broken then (Some (Foreign ''scaling failed''), w) else (None, w))"

definition mem_cloud :: "string list \<Rightarrow> world cloud" where
  "mem_cloud broken =
     \<lparr>createS3Bucket = mem_createS3Bucket,
      s3Upload = mem_s3Upload,
      applyStack = mem_applyStack,
      waitForStack = (\<lambda>name w. (None, w)),
      ListStacks = (\<lambda>tags w. (Inr (w_stacks w), w)),
      ScalePool = mem_ScalePool broken,
      DeleteStack = mem_DeleteStack\<rparr>"

definition demo_settings :: settings where
  "demo_settings =
     \<lparr>tagNameKubernetesClusterPrefix = ''kubernetes.io/cluster/'',
      resourceLifecycleOwned = ''owned'',
      discountStrategyNone = ''none'',
      discountStrategySpotMaxPrice = ''spot_max_price'',
      ignitionBaseTemplate = (\<lambda>uri. ''source: '' @ uri),
      InstanceInfo = [''m5.large'' \<mapsto> [''eu-central-1'' \<mapsto> ''0.115'']],
      getNonLegacyNodePools = NodePools\<rparr>"

text \<open>
  A configuration directory \<^verbatim>\<open>/cfg\<close> with the profiles \<^verbatim>\<open>worker\<close> and
  \<^verbatim>\<open>indexed\<close> and a plain file \<^verbatim>\<open>README\<close>. The user data template of
  \<^verbatim>\<open>worker\<close> is \<^verbatim>\<open>price={{ .Values.spot_price }}\<close>, the one of
  \<^verbatim>\<open>indexed\<close> is \<^verbatim>\<open>price={{ index .Values "spot_price" }}\<close>, and the stack
  templates are \<^verbatim>\<open>userdata={{ .UserData }}\<close>. The stand-ins for conversion, hash
  and base64 return their argument.
\<close>

definition demo_host :: host where
  "demo_host =
     \<lparr>os_Stat = (\<lambda>p. if p = ''/cfg/worker'' \<or> p = ''/cfg/indexed'' then Inr True
                     else if p = ''/cfg/README'' then Inr False
                     else Inl (Foreign (''stat '' @ p @ '': no such file or directory''))),
      ioutil_ReadFile = (\<lambda>p. if p = ''/cfg/worker/userdata.clc.yaml'' then Inr ''U''
                     else if p = ''/cfg/indexed/userdata.clc.yaml'' then Inr ''I''
                     else if p = ''/cfg/worker/stack.yaml'' \<or> p = ''/cfg/indexed/stack.yaml''
                       then Inr ''S''
                     else Inl (Foreign (''open '' @ p @ '': no such file or directory''))),
      path_Join = (\<lambda>a b. a @ ''/'' @ b),
      template_Parse = (\<lambda>c. if c = ''U'' then Inr [TextNode ''price='', FieldNode [''Values'', ''spot_price'']]
                     else if c = ''I'' then Inr [TextNode ''price='', IndexNode [''Values''] ''spot_price'']
                     else if c = ''S'' then Inr [TextNode ''userdata='', FieldNode [''UserData'']]
                     else Inr [TextNode c]),
      template_Action = (\<lambda>src d. Inl (Foreign ''template: action not supported'')),
      clcToIgnition = Inr,
      sha512_Sum = (\<lambda>bs. bs),
      base64_EncodeToString = (\<lambda>bs. bs)\<rparr>"

definition demo_provisioner :: "string list \<Rightarrow> NodePool list \<Rightarrow> world provisioner" where
  "demo_provisioner broken nodePools =
     \<lparr>settings = demo_settings,
      host = demo_host,
      cloud = mem_cloud broken,
      bucketName = ''bucket'',
      cfgBaseDir = ''/cfg'',
      Cluster = \<lparr>ID = ''aws:123:eu-central-1:kube-1'', Region = ''eu-central-1'',
                 NodePools = nodePools\<rparr>\<rparr>"

definition demo_pool :: "string \<Rightarrow> string \<Rightarrow> NodePool" where
  "demo_pool name strategy =
     \<lparr>Name = name, Profile = ''worker'', InstanceType = ''m5.large'',
      DiscountStrategy = strategy\<rparr>"

definition demo_stack :: "string \<Rightarrow> string \<Rightarrow> Stack" where
  "demo_stack stackName poolName =
     \<lparr>StackName = Some stackName,
      Tags = [\<lparr>Key = Some ''kubernetes.io/cluster/aws:123:eu-central-1:kube-1'',
               Value = Some ''owned''\<rparr>,
              \<lparr>Key = Some nodePoolRoleTagKey, Value = Some ''true''\<rparr>,
              \<lparr>Key = Some nodePoolTagKey, Value = Some poolName\<rparr>,
              \<lparr>Key = Some nodePoolProfileTagKey, Value = Some ''worker''\<rparr>]\<rparr>"

definition demo_world :: "Stack list \<Rightarrow> world" where
  "demo_world live = \<lparr>w_stacks = live, w_buckets = Map.empty\<rparr>"

text \<open>
  A live stack of the cluster of the example that carries the ownership tag and the role
  tag, and no name tag.
\<close>

definition untagged_stack :: Stack where
  "untagged_stack =
     \<lparr>StackName = Some ''nodepool-x'',
      Tags = [\<lparr>Key = Some ''kubernetes.io/cluster/aws:123:eu-central-1:kube-1'',
               Value = Some ''owned''\<rparr>,
              \<lparr>Key = Some nodePoolRoleTagKey, Value = Some ''true''\<rparr>]\<rparr>"

text \<open>Three target pools; the instance type of the second is not in the pricing table.\<close>

definition demo_three :: "NodePool list" where
  "demo_three = [demo_pool ''a'' ''none'',
                 (demo_pool ''b'' ''spot_max_price'')\<lparr>InstanceType := ''x9.huge''\<rparr>,
                 demo_pool ''c'' ''spot_max_price'']"

text \<open>Two target pools, the first with the strategy \<open>SpotMaxPrice\<close>, the second with \<open>None\<close>.\<close>

definition demo_two :: "NodePool list" where
  "demo_two = [demo_pool ''s'' ''spot_max_price'', demo_pool ''p'' ''none'']"

section \<open>Properties of the tag codec\<close>

lemma inNodePoolList_iff: "inNodePoolList nodePool nodePools \<longleftrightarrow> Name nodePool \<in> Name ` set nodePools"
  by (induction nodePools) auto

lemma orphanedNodePoolStacks_filter:
  "orphanedNodePoolStacks stacks nodePools =
     filter (\<lambda>stack. Name (nodePoolStackToNodePool stack) \<notin> Name ` set nodePools) stacks"
  by (induction stacks) (simp_all add: inNodePoolList_iff)

lemma readTags_stack_tags:
  "readTags (nodePoolStackTags clusterPrefix lifecycleOwned cluster nodePool) emptyNodePool =
     \<lparr>Name = Name nodePool, Profile = Name nodePool, InstanceType = [], DiscountStrategy = []\<rparr>"
  by (simp add: nodePoolStackTags_def readTag_def emptyNodePool_def aws_String_def
      aws_StringValue_def nodePoolTagKey_def nodePoolProfileTagKey_def nodePoolRoleTagKey_def
      nodePoolTagKeyLegacy_def Let_def)

section \<open>Properties of Reconcile\<close>

lemma drainedFirst_mono: "drainedFirst orph prev evs \<Longrightarrow> set orph \<subseteq> set orph' \<Longrightarrow> drainedFirst orph' prev evs"
  by (induction evs arbitrary: prev) (auto split: call.splits)

lemma drainedFirst_None: "drainedFirst orph None evs \<Longrightarrow> drainedFirst orph prev evs"
  by (cases evs) (auto split: call.splits)

lemma decommission_shape:
  "decommission n orphaned (w, tr) = (res, (w', tr')) \<Longrightarrow>
     \<exists>new. tr' = tr @ new \<and> drainedFirst orphaned None new"
proof (induction orphaned arbitrary: w tr)
  case Nil
  then show ?case by simp
next
  case (Cons stack orphaned)
  let ?np = "nodePoolStackToNodePool stack"
  let ?nm = "aws_StringValue (StackName stack)"
  obtain r1 w1 where s: "ScalePool (cloud n) ?np 0 w = (r1, w1)" by force
  show ?case
  proof (cases r1)
    case (Some e)
    with Cons.prems s show ?thesis by (auto simp: invoke_def)
  next
    case None
    obtain r2 w2 where d: "DeleteStack (cloud n) ?nm w1 = (r2, w2)" by force
    show ?thesis
    proof (cases r2)
      case (Some e)
      with Cons.prems s d None show ?thesis by (auto simp: invoke_def)
    next
      case N2: None
      let ?tr2 = "tr @ [(Call_ScalePool ?np 0, None), (Call_DeleteStack ?nm, None)]"
      from Cons.prems s d None N2 have "decommission n orphaned (w2, ?tr2) = (res, (w', tr'))"
        by (simp add: invoke_def)
      from Cons.IH[OF this] obtain new where new: "tr' = ?tr2 @ new" "drainedFirst orphaned None new"
        by blast
      have "drainedFirst (stack # orphaned) None new"
        by (rule drainedFirst_mono[OF new(2)]) auto
      then have "drainedFirst (stack # orphaned) (Some (Call_DeleteStack ?nm, None)) new"
        by (rule drainedFirst_None)
      then have "drainedFirst (stack # orphaned) None
                   ([(Call_ScalePool ?np 0, None), (Call_DeleteStack ?nm, None)] @ new)"
        by simp
      with new(1) show ?thesis by (intro exI[of _ "[(Call_ScalePool ?np 0, None), (Call_DeleteStack ?nm, None)] @ new"]) simp
    qed
  qed
qed

lemma drainedFirst_nth:
  "drainedFirst orph prev evs \<Longrightarrow> i < length evs \<Longrightarrow> evs ! i = (Call_DeleteStack name, r) \<Longrightarrow>
     (\<exists>stack\<in>set orph. name = aws_StringValue (StackName stack) \<and>
        (if i = 0 then prev else Some (evs ! (i - 1))) =
          Some (Call_ScalePool (nodePoolStackToNodePool stack) 0, None))"
proof (induction evs arbitrary: prev i)
  case Nil
  then show ?case by simp
next
  case (Cons ev evs)
  show ?case
  proof (cases i)
    case 0
    with Cons.prems show ?thesis by auto
  next
    case (Suc j)
    with Cons.prems have "drainedFirst orph (Some ev) evs" "j < length evs" "evs ! j = (Call_DeleteStack name, r)"
      by auto
    from Cons.IH[OF this] Suc show ?thesis by (cases j) auto
  qed
qed

lemma decommission_append:
  "decommission n (pre @ rest) st =
     (case decommission n pre st of
        (Some e, st1) \<Rightarrow> (Some e, st1)
      | (None, st1) \<Rightarrow> decommission n rest st1)"
proof (induction pre arbitrary: st)
  case Nil
  then show ?case by (simp split: prod.splits option.splits)
next
  case (Cons stack pre)
  show ?case
    by (simp add: Cons.IH Let_def split: prod.splits option.splits)
qed

lemma drainedFirst_index:
  assumes "drainedFirst orph None new" and "i < length new" and "new ! i = (Call_DeleteStack name, r)"
  shows "0 < i \<and> (\<exists>stack\<in>set orph. name = aws_StringValue (StackName stack) \<and>
           new ! (i - 1) = (Call_ScalePool (nodePoolStackToNodePool stack) 0, None))"
proof -
  from drainedFirst_nth[OF assms] obtain stack where st: "stack \<in> set orph"
    "name = aws_StringValue (StackName stack)"
    "(if i = 0 then None else Some (new ! (i - 1))) =
        Some (Call_ScalePool (nodePoolStackToNodePool stack) 0, None)"
    by blast
  from st(3) have "0 < i" by (cases "i = 0") simp_all
  with st show ?thesis by auto
qed

lemma decommission_drain_fails:
  assumes "decommission n pre st = (None, (w1, tr1))"
      and "ScalePool (cloud n) (nodePoolStackToNodePool stack) 0 w1 = (Some e, w2)"
  shows "decommission n (pre @ stack # rest) st =
           (Some e, (w2, tr1 @ [(Call_ScalePool (nodePoolStackToNodePool stack) 0, Some e)]))"
  using assms by (simp add: decommission_append invoke_def Let_def)

lemma Reconcile_listed:
  assumes "ListStacks (cloud n) (reconcileTags n) w = (Inr stacks, w0)"
  shows "Reconcile n (w, tr) =
           decommission n (orphanedNodePoolStacks stacks (NodePools (Cluster n)))
             (w0, tr @ [(Call_ListStacks, None)])"
  using assms by (simp add: Reconcile_def invoke_ListStacks_def Let_def)

text \<open>
  Claim C3. In a run of \<^verbatim>\<open>Reconcile\<close> whose listing succeeds, every call of
  \<^verbatim>\<open>DeleteStack\<close> comes right after a successful \<^verbatim>\<open>ScalePool\<close> to zero
  for the pool of an orphaned stack of that name. When the drain of an orphaned stack
  fails, after the stacks before it were decommissioned, the run ends there: it returns
  the drain's error, the failed drain is its last call, and the provider's state is the
  one that call left, so no delete was invoked and the stack is in place.
\<close>

theorem Reconcile_drain_before_delete:
  assumes list: "ListStacks (cloud n) (reconcileTags n) w = (Inr stacks, w0)"
      and orph: "orphaned = orphanedNodePoolStacks stacks (NodePools (Cluster n))"
      and run: "Reconcile n (w, tr) = (res, (w', tr'))"
  shows "(\<exists>new. tr' = tr @ (Call_ListStacks, None) # new \<and>
            (\<forall>i<length new. \<forall>name r. new ! i = (Call_DeleteStack name, r) \<longrightarrow>
               0 < i \<and> (\<exists>stack\<in>set orphaned. name = aws_StringValue (StackName stack) \<and>
                  new ! (i - 1) = (Call_ScalePool (nodePoolStackToNodePool stack) 0, None))))
       \<and> (\<forall>pre stack rest w1 tr1 e w2.
            orphaned = pre @ stack # rest \<longrightarrow>
            decommission n pre (w0, tr @ [(Call_ListStacks, None)]) = (None, (w1, tr1)) \<longrightarrow>
            ScalePool (cloud n) (nodePoolStackToNodePool stack) 0 w1 = (Some e, w2) \<longrightarrow>
            res = Some e \<and> w' = w2 \<and>
            tr' = tr1 @ [(Call_ScalePool (nodePoolStackToNodePool stack) 0, Some e)])"
proof (intro conjI allI impI)
  from Reconcile_listed[OF list] run orph
  have dec: "decommission n orphaned (w0, tr @ [(Call_ListStacks, None)]) = (res, (w', tr'))"
    by simp
  from decommission_shape[OF dec] obtain new
    where new: "tr' = (tr @ [(Call_ListStacks, None)]) @ new" "drainedFirst orphaned None new"
    by blast
  show "\<exists>new. tr' = tr @ (Call_ListStacks, None) # new \<and>
          (\<forall>i<length new. \<forall>name r. new ! i = (Call_DeleteStack name, r) \<longrightarrow>
             0 < i \<and> (\<exists>stack\<in>set orphaned. name = aws_StringValue (StackName stack) \<and>
                new ! (i - 1) = (Call_ScalePool (nodePoolStackToNodePool stack) 0, None)))"
  proof (intro exI[of _ new] conjI allI impI)
    show "tr' = tr @ (Call_ListStacks, None) # new" using new(1) by simp
  next
    fix i name r
    assume "i < length new" "new ! i = (Call_DeleteStack name, r)"
    from drainedFirst_index[OF new(2) this]
    show "0 < i" and "\<exists>stack\<in>set orphaned. name = aws_StringValue (StackName stack) \<and>
                new ! (i - 1) = (Call_ScalePool (nodePoolStackToNodePool stack) 0, None)"
      by blast+
  qed
next
  fix pre stack rest w1 tr1 e w2
  assume split: "orphaned = pre @ stack # rest"
    and pre: "decommission n pre (w0, tr @ [(Call_ListStacks, None)]) = (None, (w1, tr1))"
    and drain: "ScalePool (cloud n) (nodePoolStackToNodePool stack) 0 w1 = (Some e, w2)"
  from Reconcile_listed[OF list] run orph
  have dec: "decommission n orphaned (w0, tr @ [(Call_ListStacks, None)]) = (res, (w', tr'))"
    by simp
  have a: "decommission n (pre @ stack # rest) (w0, tr @ [(Call_ListStacks, None)]) =
             (res, (w', tr'))"
    using dec split by simp
  have "(res, (w', tr')) =
          (Some e, (w2, tr1 @ [(Call_ScalePool (nodePoolStackToNodePool stack) 0, Some e)]))"
    by (rule trans[OF sym[OF a] decommission_drain_fails[OF pre drain]])
  then show "res = Some e" and "w' = w2"
    and "tr' = tr1 @ [(Call_ScalePool (nodePoolStackToNodePool stack) 0, Some e)]"
    by simp_all
qed

lemma demo_decode: "nodePoolStackToNodePool (demo_stack s p) =
   \<lparr>Name = p, Profile = ''worker'', InstanceType = [], DiscountStrategy = []\<rparr>"
  by (simp add: nodePoolStackToNodePool_def demo_stack_def readTag_def emptyNodePool_def
      aws_StringValue_def nodePoolTagKey_def nodePoolProfileTagKey_def nodePoolRoleTagKey_def Let_def)

lemma demo_orph: "orphanedNodePoolStacks [demo_stack ''nodepool-keep'' ''keep'', demo_stack ''nodepool-old'' ''old'']
    [demo_pool ''keep'' ''none''] = [demo_stack ''nodepool-old'' ''old'']"
  by (simp add: demo_decode demo_pool_def)

text \<open>
  The theorem on the in-memory provider: the pool \<open>old\<close> is orphaned and its drain
  fails.
\<close>

theorem Reconcile_drain_before_delete_witness:
  "Reconcile (demo_provisioner [''old''] [demo_pool ''keep'' ''none''])
     (demo_world [demo_stack ''nodepool-keep'' ''keep'', demo_stack ''nodepool-old'' ''old''], []) =
   (Some (Foreign ''scaling failed''),
    (demo_world [demo_stack ''nodepool-keep'' ''keep'', demo_stack ''nodepool-old'' ''old''],
     [(Call_ListStacks, None),
      (Call_ScalePool (nodePoolStackToNodePool (demo_stack ''nodepool-old'' ''old'')) 0,
       Some (Foreign ''scaling failed''))]))"
proof -
  let ?n = "demo_provisioner [''old''] [demo_pool ''keep'' ''none'']"
  let ?live = "[demo_stack ''nodepool-keep'' ''keep'', demo_stack ''nodepool-old'' ''old'']"
  let ?w = "demo_world ?live"
  let ?old = "demo_stack ''nodepool-old'' ''old''"
  have list: "ListStacks (cloud ?n) (reconcileTags ?n) ?w = (Inr ?live, ?w)"
    by (simp add: demo_provisioner_def mem_cloud_def demo_world_def)
  have orph: "[?old] = orphanedNodePoolStacks ?live (NodePools (Cluster ?n))"
    by (simp add: demo_provisioner_def demo_orph del: orphanedNodePoolStacks.simps)
  obtain res w' tr' where run: "Reconcile ?n (?w, []) = (res, (w', tr'))"
    by (metis surj_pair)
  have pre: "decommission ?n [] (?w, [] @ [(Call_ListStacks, None)]) =
               (None, (?w, [(Call_ListStacks, None)]))"
    by simp
  have drain: "ScalePool (cloud ?n) (nodePoolStackToNodePool ?old) 0 ?w =
                 (Some (Foreign ''scaling failed''), ?w)"
    by (simp add: demo_provisioner_def mem_cloud_def mem_ScalePool_def demo_decode)
  from Reconcile_drain_before_delete[OF list orph run] pre drain
  have "res = Some (Foreign ''scaling failed'') \<and> w' = ?w \<and>
        tr' = [(Call_ListStacks, None)] @
              [(Call_ScalePool (nodePoolStackToNodePool ?old) 0, Some (Foreign ''scaling failed''))]"
    by blast
  with run show ?thesis by simp
qed

section \<open>Properties of orphan detection\<close>

lemma inNodePoolList_Profile_update:
  "inNodePoolList nodePool (map (\<lambda>np. np\<lparr>Profile := f np\<rparr>) nodePools) =
     inNodePoolList nodePool nodePools"
  by (induction nodePools) simp_all

text \<open>
  Claim C6. The orphaned stacks are the live stacks, in their order, whose pool name read
  from the tags is not the name of a desired pool; a stack is orphaned exactly then.
  Only names are compared: giving the desired pools other profiles changes nothing.
\<close>

theorem orphaned_by_name_only:
  "orphanedNodePoolStacks stacks nodePools =
     filter (\<lambda>stack. Name (nodePoolStackToNodePool stack) \<notin> Name ` set nodePools) stacks
   \<and> (stack \<in> set (orphanedNodePoolStacks stacks nodePools) \<longleftrightarrow>
        stack \<in> set stacks \<and> Name (nodePoolStackToNodePool stack) \<notin> Name ` set nodePools)
   \<and> orphanedNodePoolStacks stacks (map (\<lambda>np. np\<lparr>Profile := f np\<rparr>) nodePools) =
        orphanedNodePoolStacks stacks nodePools"
proof (intro conjI)
  show eq: "orphanedNodePoolStacks stacks nodePools =
     filter (\<lambda>stack. Name (nodePoolStackToNodePool stack) \<notin> Name ` set nodePools) stacks"
    by (rule orphanedNodePoolStacks_filter)
  show "stack \<in> set (orphanedNodePoolStacks stacks nodePools) \<longleftrightarrow>
        stack \<in> set stacks \<and> Name (nodePoolStackToNodePool stack) \<notin> Name ` set nodePools"
    unfolding eq by simp
  show "orphanedNodePoolStacks stacks (map (\<lambda>np. np\<lparr>Profile := f np\<rparr>) nodePools) =
        orphanedNodePoolStacks stacks nodePools"
    by (induction stacks) (simp_all add: inNodePoolList_Profile_update)
qed

text \<open>
  The example of the specification: live stacks of the pools A, B and C, desired pools
  B and C.
\<close>

theorem orphaned_by_name_only_witness:
  "orphanedNodePoolStacks [demo_stack ''sa'' ''A'', demo_stack ''sb'' ''B'', demo_stack ''sc'' ''C'']
     [demo_pool ''B'' ''none'', demo_pool ''C'' ''none''] = [demo_stack ''sa'' ''A'']"
proof -
  have "orphanedNodePoolStacks [demo_stack ''sa'' ''A'', demo_stack ''sb'' ''B'', demo_stack ''sc'' ''C'']
     [demo_pool ''B'' ''none'', demo_pool ''C'' ''none''] =
     filter (\<lambda>stack. Name (nodePoolStackToNodePool stack)
                \<notin> Name ` set [demo_pool ''B'' ''none'', demo_pool ''C'' ''none''])
       [demo_stack ''sa'' ''A'', demo_stack ''sb'' ''B'', demo_stack ''sc'' ''C'']"
    using orphaned_by_name_only by blast
  then show ?thesis by (simp add: demo_decode demo_pool_def)
qed

section \<open>Properties of the tags of a provisioned stack\<close>

text \<open>
  Claim C1, at a pool whose profile differs from its name. The tags written when the
  pool is provisioned give back the name, and give the name again where the profile is
  expected: the profile tag is written with \<^verbatim>\<open>nodePool.Name\<close> (line 183), so the
  round trip loses the profile.
\<close>

theorem tag_round_trip_profile_is_name:
  "nodePoolStackToNodePool
     \<lparr>StackName = Some ''nodepool-spot-kube-1'',
      Tags = nodePoolStackTags ''kubernetes.io/cluster/'' ''owned''
               \<lparr>ID = ''kube-1'', Region = ''eu-central-1'', NodePools = []\<rparr>
               \<lparr>Name = ''spot'', Profile = ''worker'', InstanceType = ''m5.large'',
                DiscountStrategy = ''none''\<rparr>\<rparr>
   = \<lparr>Name = ''spot'', Profile = ''spot'', InstanceType = [], DiscountStrategy = []\<rparr>"
  by (simp add: nodePoolStackToNodePool_def readTags_stack_tags)

section \<open>Properties of the spot price\<close>

lemma provisionNodePool_values:
  "fst (snd (provisionNodePool n nodePool vals st)) = snd (resolveSpotPrice n nodePool vals)"
  by (simp add: provisionNodePool_def Let_def split: prod.splits option.splits sum.splits)

lemma provisionNodePool_error:
  "fst (resolveSpotPrice n nodePool vals) = Some err \<Longrightarrow>
     provisionNodePool n nodePool vals st = (Some err, snd (resolveSpotPrice n nodePool vals), st)"
proof -
  assume a: "fst (resolveSpotPrice n nodePool vals) = Some err"
  obtain r v where rs: "resolveSpotPrice n nodePool vals = (r, v)" by force
  with a have "r = Some err" by simp
  with rs show ?thesis by (simp add: provisionNodePool_def)
qed

text \<open>
  Claim C5. After \<^verbatim>\<open>provisionNodePool\<close> the map holds under \<open>spot_price\<close>: the
  on-demand price of the table, for the strategy \<open>SpotMaxPrice\<close> with the instance type
  and the region in the table; the empty string for the strategy \<open>None\<close>. An unknown
  instance type, a region without price and any other strategy make it return an error
  before any collaborator is called.
\<close>

theorem provisionNodePool_spot_price:
  assumes run: "provisionNodePool n nodePool vals st = (res, vals', st')"
      and distinct: "discountStrategyNone (settings n) \<noteq> discountStrategySpotMaxPrice (settings n)"
  shows "(DiscountStrategy nodePool = discountStrategySpotMaxPrice (settings n) \<longrightarrow>
            (\<forall>pricing price.
               InstanceInfo (settings n) (InstanceType nodePool) = Some pricing \<longrightarrow>
               pricing (Region (Cluster n)) = Some price \<longrightarrow>
               vals' ''spot_price'' = Some price)
          \<and> (InstanceInfo (settings n) (InstanceType nodePool) = None \<longrightarrow>
               res = Some (Errorf (''unknown instance type '' @ InstanceType nodePool))
               \<and> st' = st)
          \<and> (\<forall>pricing.
               InstanceInfo (settings n) (InstanceType nodePool) = Some pricing \<longrightarrow>
               pricing (Region (Cluster n)) = None \<longrightarrow>
               res = Some (Errorf (''no price data for region '' @ Region (Cluster n)
                       @ '', instance type '' @ InstanceType nodePool))
               \<and> st' = st))
       \<and> (DiscountStrategy nodePool = discountStrategyNone (settings n) \<longrightarrow>
            vals' ''spot_price'' = Some [])
       \<and> (DiscountStrategy nodePool \<noteq> discountStrategyNone (settings n) \<longrightarrow>
          DiscountStrategy nodePool \<noteq> discountStrategySpotMaxPrice (settings n) \<longrightarrow>
            res = Some (Errorf (''unsupported node pool discount_strategy ''
                    @ DiscountStrategy nodePool))
            \<and> st' = st)"
proof -
  have vals': "vals' = snd (resolveSpotPrice n nodePool vals)"
    using provisionNodePool_values[of n nodePool vals st] run by simp
  have err: "res = Some err \<and> st' = st" if "fst (resolveSpotPrice n nodePool vals) = Some err" for err
    using provisionNodePool_error[OF that, of st] run by simp
  show ?thesis
  proof (intro conjI impI allI)
    fix pricing price
    assume "DiscountStrategy nodePool = discountStrategySpotMaxPrice (settings n)"
      "InstanceInfo (settings n) (InstanceType nodePool) = Some pricing"
      "pricing (Region (Cluster n)) = Some price"
    with distinct show "vals' ''spot_price'' = Some price"
      by (simp add: vals' resolveSpotPrice_def)
  next
    assume a: "DiscountStrategy nodePool = discountStrategySpotMaxPrice (settings n)"
      "InstanceInfo (settings n) (InstanceType nodePool) = None"
    with distinct have "fst (resolveSpotPrice n nodePool vals) =
        Some (Errorf (''unknown instance type '' @ InstanceType nodePool))"
      by (simp add: resolveSpotPrice_def)
    from err[OF this]
    show "res = Some (Errorf (''unknown instance type '' @ InstanceType nodePool))" "st' = st"
      by simp_all
  next
    fix pricing
    assume a: "DiscountStrategy nodePool = discountStrategySpotMaxPrice (settings n)"
      "InstanceInfo (settings n) (InstanceType nodePool) = Some pricing"
      "pricing (Region (Cluster n)) = None"
    with distinct have "fst (resolveSpotPrice n nodePool vals) =
        Some (Errorf (''no price data for region '' @ Region (Cluster n)
                       @ '', instance type '' @ InstanceType nodePool))"
      by (simp add: resolveSpotPrice_def)
    from err[OF this]
    show "res = Some (Errorf (''no price data for region '' @ Region (Cluster n)
                       @ '', instance type '' @ InstanceType nodePool))" "st' = st"
      by simp_all
  next
    assume "DiscountStrategy nodePool = discountStrategyNone (settings n)"
    then show "vals' ''spot_price'' = Some []"
      by (simp add: vals' resolveSpotPrice_def)
  next
    assume "DiscountStrategy nodePool \<noteq> discountStrategyNone (settings n)"
      "DiscountStrategy nodePool \<noteq> discountStrategySpotMaxPrice (settings n)"
    then have "fst (resolveSpotPrice n nodePool vals) =
        Some (Errorf (''unsupported node pool discount_strategy '' @ DiscountStrategy nodePool))"
      by (simp add: resolveSpotPrice_def)
    from err[OF this]
    show "res = Some (Errorf (''unsupported node pool discount_strategy ''
                    @ DiscountStrategy nodePool))" "st' = st"
      by simp_all
  qed
qed

text \<open>
  The example of the specification: \<^verbatim>\<open>m5.large\<close> in \<^verbatim>\<open>eu-central-1\<close>, whose
  price in the table of the example is 0.115.
\<close>

theorem provisionNodePool_spot_price_witness:
  "fst (snd (provisionNodePool (demo_provisioner [] []) (demo_pool ''spot'' ''spot_max_price'')
               Map.empty (demo_world [], []))) ''spot_price'' = Some ''0.115''"
proof -
  let ?n = "demo_provisioner [] []"
  let ?p = "demo_pool ''spot'' ''spot_max_price''"
  obtain res vals' st' where run:
    "provisionNodePool ?n ?p Map.empty (demo_world [], []) = (res, vals', st')"
    by (metis surj_pair)
  have distinct: "discountStrategyNone (settings ?n) \<noteq> discountStrategySpotMaxPrice (settings ?n)"
    by (simp add: demo_provisioner_def demo_settings_def)
  have strategy: "DiscountStrategy ?p = discountStrategySpotMaxPrice (settings ?n)"
    by (simp add: demo_provisioner_def demo_settings_def demo_pool_def)
  have info: "InstanceInfo (settings ?n) (InstanceType ?p) = Some [''eu-central-1'' \<mapsto> ''0.115'']"
    by (simp add: demo_provisioner_def demo_settings_def demo_pool_def)
  have price: "[''eu-central-1'' \<mapsto> ''0.115''] (Region (Cluster ?n)) = Some ''0.115''"
    by (simp add: demo_provisioner_def)
  from provisionNodePool_spot_price[OF run distinct] strategy info price
  have "vals' ''spot_price'' = Some ''0.115''"
    by blast
  with run show ?thesis by simp
qed

section \<open>Properties of the profile directory\<close>

text \<open>
  Claim C9 fails as stated. In the example the directory of the profile \<open>master\<close> does not
  exist; the error returned is the one of \<^verbatim>\<open>os.Stat\<close> for the joined path, and not
  the error of this file that names the profile.
\<close>

theorem missing_profile_directory_counterexample:
  "fst (generateNodePoolStackTemplate (demo_provisioner [] [])
          ((demo_pool ''a'' ''none'')\<lparr>Profile := ''master''\<rparr>) Map.empty (demo_world [], []))
     = Inl (Foreign ''stat /cfg/master: no such file or directory'')
   \<and> fst (generateNodePoolStackTemplate (demo_provisioner [] [])
          ((demo_pool ''a'' ''none'')\<lparr>Profile := ''master''\<rparr>) Map.empty (demo_world [], []))
     \<noteq> Inl (Errorf (''failed to find configuration for node pool profile ''
                @ [CHR 0x27] @ ''master'' @ [CHR 0x27]))"
  by (simp add: generateNodePoolStackTemplate_def demo_provisioner_def demo_host_def demo_pool_def)

text \<open>
  Claim C9 as amended. When \<^verbatim>\<open>os.Stat\<close> of the joined path fails, as it does for a
  directory that does not exist, the generation fails with that very error; when the
  path exists and is not a directory, it fails with the error of this file that names
  the profile. Neither case calls a collaborator.
\<close>

theorem generateNodePoolStackTemplate_profile_errors:
  "(os_Stat (host n) (path_Join (host n) (cfgBaseDir n) (Profile nodePool)) = Inl err \<longrightarrow>
      generateNodePoolStackTemplate n nodePool vals st = (Inl err, st))
   \<and> (os_Stat (host n) (path_Join (host n) (cfgBaseDir n) (Profile nodePool)) = Inr False \<longrightarrow>
      generateNodePoolStackTemplate n nodePool vals st =
        (Inl (Errorf (''failed to find configuration for node pool profile ''
                @ [CHR 0x27] @ Profile nodePool @ [CHR 0x27])), st))"
  by (simp add: generateNodePoolStackTemplate_def Let_def)

theorem generateNodePoolStackTemplate_profile_errors_witness:
  "generateNodePoolStackTemplate (demo_provisioner [] [])
      ((demo_pool ''a'' ''none'')\<lparr>Profile := ''master''\<rparr>) Map.empty (demo_world [], [])
     = (Inl (Foreign ''stat /cfg/master: no such file or directory''), (demo_world [], []))
   \<and> generateNodePoolStackTemplate (demo_provisioner [] [])
      ((demo_pool ''a'' ''none'')\<lparr>Profile := ''README''\<rparr>) Map.empty (demo_world [], [])
     = (Inl (Errorf (''failed to find configuration for node pool profile ''
                @ [CHR 0x27] @ ''README'' @ [CHR 0x27])), (demo_world [], []))"
proof -
  let ?n = "demo_provisioner [] []"
  let ?m = "(demo_pool ''a'' ''none'')\<lparr>Profile := ''master''\<rparr>"
  let ?r = "(demo_pool ''a'' ''none'')\<lparr>Profile := ''README''\<rparr>"
  have missing: "os_Stat (host ?n) (path_Join (host ?n) (cfgBaseDir ?n) (Profile ?m))
                   = Inl (Foreign ''stat /cfg/master: no such file or directory'')"
    by (simp add: demo_provisioner_def demo_host_def demo_pool_def)
  have plain: "os_Stat (host ?n) (path_Join (host ?n) (cfgBaseDir ?n) (Profile ?r)) = Inr False"
    by (simp add: demo_provisioner_def demo_host_def demo_pool_def)
  have pr: "Profile ?r = ''README''" by (simp add: demo_pool_def)
  from generateNodePoolStackTemplate_profile_errors[of ?n ?m
        "Foreign ''stat /cfg/master: no such file or directory''" Map.empty "(demo_world [], [])"]
      missing
  have a: "generateNodePoolStackTemplate ?n ?m Map.empty (demo_world [], [])
     = (Inl (Foreign ''stat /cfg/master: no such file or directory''), (demo_world [], []))"
    by blast
  from generateNodePoolStackTemplate_profile_errors[of ?n ?r _ Map.empty "(demo_world [], [])"]
      plain
  have "generateNodePoolStackTemplate ?n ?r Map.empty (demo_world [], [])
     = (Inl (Errorf (''failed to find configuration for node pool profile ''
                @ [CHR 0x27] @ Profile ?r @ [CHR 0x27])), (demo_world [], []))"
    by blast
  with a pr show ?thesis by simp
qed

section \<open>Properties of the publisher\<close>

lemma uploadUserDataToS3_uri:
  "uploadUserDataToS3 n userData bucket st = (Inr uri, st') \<Longrightarrow>
     uri = ''s3://'' @ bucket @ ''/'' @ hex_EncodeToString (sha512_Sum (host n) userData)
             @ ''.userdata''"
  by (auto simp: uploadUserDataToS3_def Let_def split: prod.splits option.splits)

lemma uploadUserDataToS3_mem:
  assumes "createS3Bucket (cloud m) = mem_createS3Bucket"
      and "s3Upload (cloud m) = mem_s3Upload"
  shows "\<exists>w1 tr1. uploadUserDataToS3 m userData bucket (w, tr) =
            (Inr (''s3://'' @ bucket @ ''/'' @ hex_EncodeToString (sha512_Sum (host m) userData)
                    @ ''.userdata''), (w1, tr1))
          \<and> (\<exists>objs. w_buckets w1 bucket = Some objs \<and>
                 objs (hex_EncodeToString (sha512_Sum (host m) userData) @ ''.userdata'')
                   = Some userData)"
proof (cases "w_buckets w bucket")
  case None
  then show ?thesis
    by (simp add: uploadUserDataToS3_def invoke_def assms mem_createS3Bucket_def
        mem_s3Upload_def Let_def)
next
  case (Some objs)
  then show ?thesis
    by (simp add: uploadUserDataToS3_def invoke_def assms mem_createS3Bucket_def
        mem_s3Upload_def Let_def)
qed

lemma uploadUserDataToS3_mem_again:
  assumes "createS3Bucket (cloud m) = mem_createS3Bucket"
      and "s3Upload (cloud m) = mem_s3Upload"
      and "w_buckets w1 bucket = Some objs"
      and "objs (hex_EncodeToString (sha512_Sum (host m) userData) @ ''.userdata'') = Some userData"
  shows "fst (uploadUserDataToS3 m userData bucket (w1, tr1)) =
            Inr (''s3://'' @ bucket @ ''/'' @ hex_EncodeToString (sha512_Sum (host m) userData)
                    @ ''.userdata'')
       \<and> fst (snd (uploadUserDataToS3 m userData bucket (w1, tr1))) = w1"
proof -
  have "objs(hex_EncodeToString (sha512_Sum (host m) userData) @ ''.userdata'' \<mapsto> userData) = objs"
    using assms(4) by (rule map_upd_triv)
  moreover have "(w_buckets w1)(bucket \<mapsto> objs) = w_buckets w1"
    using assms(3) by (rule map_upd_triv)
  ultimately show ?thesis
    by (simp add: uploadUserDataToS3_def invoke_def assms mem_createS3Bucket_def
        mem_s3Upload_def Let_def)
qed

text \<open>
  Claim C8. A publish that succeeds returns \<open>s3://\<close>, the bucket, a slash, the
  hexadecimal SHA-512 digest of the payload and \<open>.userdata\<close>, whatever the state of the
  provider; so two publishes of one payload to one bucket that succeed return the same
  URI. On an object store where creating a bucket that exists is no error and an upload
  overwrites, the first publish succeeds and leaves the payload under that key, and a
  second publish succeeds with the same URI and leaves the store as it was: one object.
\<close>

theorem uploadUserDataToS3_content_addressed:
  "(uploadUserDataToS3 n userData bucket st = (Inr uri, st') \<longrightarrow>
      uri = ''s3://'' @ bucket @ ''/'' @ hex_EncodeToString (sha512_Sum (host n) userData)
              @ ''.userdata'')
   \<and> (uploadUserDataToS3 n userData bucket st1 = (Inr uri1, st1') \<longrightarrow>
      uploadUserDataToS3 n userData bucket st2 = (Inr uri2, st2') \<longrightarrow> uri1 = uri2)
   \<and> (createS3Bucket (cloud m) = mem_createS3Bucket \<longrightarrow>
      s3Upload (cloud m) = mem_s3Upload \<longrightarrow>
      (\<exists>w1 tr1.
          uploadUserDataToS3 m userData bucket (w, tr) =
            (Inr (''s3://'' @ bucket @ ''/'' @ hex_EncodeToString (sha512_Sum (host m) userData)
                    @ ''.userdata''), (w1, tr1))
          \<and> (\<exists>objs. w_buckets w1 bucket = Some objs \<and>
                 objs (hex_EncodeToString (sha512_Sum (host m) userData) @ ''.userdata'')
                   = Some userData)
          \<and> fst (uploadUserDataToS3 m userData bucket (w1, tr1)) =
              Inr (''s3://'' @ bucket @ ''/'' @ hex_EncodeToString (sha512_Sum (host m) userData)
                    @ ''.userdata'')
          \<and> fst (snd (uploadUserDataToS3 m userData bucket (w1, tr1))) = w1))"
proof (intro conjI impI)
  assume "uploadUserDataToS3 n userData bucket st = (Inr uri, st')"
  then show "uri = ''s3://'' @ bucket @ ''/'' @ hex_EncodeToString (sha512_Sum (host n) userData)
              @ ''.userdata''"
    by (rule uploadUserDataToS3_uri)
next
  assume "uploadUserDataToS3 n userData bucket st1 = (Inr uri1, st1')"
    and "uploadUserDataToS3 n userData bucket st2 = (Inr uri2, st2')"
  then show "uri1 = uri2"
    using uploadUserDataToS3_uri[of n userData bucket st1 uri1 st1']
      uploadUserDataToS3_uri[of n userData bucket st2 uri2 st2']
    by simp
next
  assume mem: "createS3Bucket (cloud m) = mem_createS3Bucket" "s3Upload (cloud m) = mem_s3Upload"
  let ?key = "hex_EncodeToString (sha512_Sum (host m) userData) @ ''.userdata''"
  from uploadUserDataToS3_mem[OF mem, of userData bucket w tr] obtain w1 tr1 objs where
    first: "uploadUserDataToS3 m userData bucket (w, tr) = (Inr (''s3://'' @ bucket @ ''/'' @ ?key), (w1, tr1))"
    and objs: "w_buckets w1 bucket = Some objs" "objs ?key = Some userData"
    by auto
  from uploadUserDataToS3_mem_again[OF mem objs, of tr1] first objs
  show "\<exists>w1 tr1.
          uploadUserDataToS3 m userData bucket (w, tr) =
            (Inr (''s3://'' @ bucket @ ''/'' @ hex_EncodeToString (sha512_Sum (host m) userData)
                    @ ''.userdata''), (w1, tr1))
          \<and> (\<exists>objs. w_buckets w1 bucket = Some objs \<and>
                 objs (hex_EncodeToString (sha512_Sum (host m) userData) @ ''.userdata'')
                   = Some userData)
          \<and> fst (uploadUserDataToS3 m userData bucket (w1, tr1)) =
              Inr (''s3://'' @ bucket @ ''/'' @ hex_EncodeToString (sha512_Sum (host m) userData)
                    @ ''.userdata'')
          \<and> fst (snd (uploadUserDataToS3 m userData bucket (w1, tr1))) = w1"
    by auto
qed

text \<open>
  The payload \<open>abc\<close> published twice to the in-memory provider, whose stand-in for the
  hash returns its argument.
\<close>

theorem uploadUserDataToS3_content_addressed_witness:
  "fst (uploadUserDataToS3 (demo_provisioner [] []) ''abc'' ''bucket'' (demo_world [], []))
     = Inr ''s3://bucket/616263.userdata''
   \<and> fst (uploadUserDataToS3 (demo_provisioner [] []) ''abc'' ''bucket''
           (snd (uploadUserDataToS3 (demo_provisioner [] []) ''abc'' ''bucket'' (demo_world [], []))))
     = Inr ''s3://bucket/616263.userdata''
   \<and> fst (snd (uploadUserDataToS3 (demo_provisioner [] []) ''abc'' ''bucket''
           (snd (uploadUserDataToS3 (demo_provisioner [] []) ''abc'' ''bucket'' (demo_world [], [])))))
     = fst (snd (uploadUserDataToS3 (demo_provisioner [] []) ''abc'' ''bucket'' (demo_world [], [])))"
proof -
  let ?m = "demo_provisioner [] []"
  have create: "createS3Bucket (cloud ?m) = mem_createS3Bucket"
    and upload: "s3Upload (cloud ?m) = mem_s3Upload"
    by (simp_all add: demo_provisioner_def mem_cloud_def)
  have key: "hex_EncodeToString (sha512_Sum (host ?m) ''abc'') @ ''.userdata'' = ''616263.userdata''"
    by (simp add: demo_provisioner_def demo_host_def hex_EncodeToString_def hexdigit_def)
  from uploadUserDataToS3_content_addressed[where m = ?m and userData = "''abc''"
      and bucket = "''bucket''" and w = "demo_world []" and tr = "[]"] create upload
  obtain w1 tr1 where
    first: "uploadUserDataToS3 ?m ''abc'' ''bucket'' (demo_world [], []) =
              (Inr (''s3://'' @ ''bucket'' @ ''/'' @ hex_EncodeToString (sha512_Sum (host ?m) ''abc'')
                      @ ''.userdata''), (w1, tr1))"
    and again: "fst (uploadUserDataToS3 ?m ''abc'' ''bucket'' (w1, tr1)) =
              Inr (''s3://'' @ ''bucket'' @ ''/'' @ hex_EncodeToString (sha512_Sum (host ?m) ''abc'')
                      @ ''.userdata'')"
    and same: "fst (snd (uploadUserDataToS3 ?m ''abc'' ''bucket'' (w1, tr1))) = w1"
    by blast
  from first again same key show ?thesis by simp
qed

section \<open>Stacks without a name tag\<close>

lemma readTags_no_name_tag:
  "\<forall>tag\<in>set tags. aws_StringValue (Key tag) \<noteq> nodePoolTagKey \<Longrightarrow>
     Name (readTags tags nodePool) = Name nodePool"
  by (induction tags arbitrary: nodePool) (simp_all add: readTag_def Let_def)

lemma decommission_reaches:
  assumes "decommission n pre st = (None, (w1, tr1))"
      and "decommission n (pre @ stack # rest) st = (res, (w', tr'))"
      and "ScalePool (cloud n) (nodePoolStackToNodePool stack) 0 w1 = (r, w2)"
  shows "prefix (tr1 @ [(Call_ScalePool (nodePoolStackToNodePool stack) 0, r)]) tr'"
    and "r = None \<Longrightarrow> \<exists>r'. prefix (tr1 @ [(Call_ScalePool (nodePoolStackToNodePool stack) 0, None),
             (Call_DeleteStack (aws_StringValue (StackName stack)), r')]) tr'"
proof -
  let ?np = "nodePoolStackToNodePool stack"
  let ?nm = "aws_StringValue (StackName stack)"
  let ?st1 = "(w2, tr1 @ [(Call_ScalePool ?np 0, r)])"
  from assms(1,2) have run: "decommission n (stack # rest) (w1, tr1) = (res, (w', tr'))"
    by (simp add: decommission_append)
  have inv: "invoke (Call_ScalePool ?np 0) (ScalePool (cloud n) ?np 0) (w1, tr1) = (r, ?st1)"
    using assms(3) by (simp add: invoke_def)
  obtain r' w3 where del: "DeleteStack (cloud n) ?nm w2 = (r', w3)" by force
  let ?st2 = "(w3, tr1 @ [(Call_ScalePool ?np 0, r), (Call_DeleteStack ?nm, r')])"
  have inv2: "invoke (Call_DeleteStack ?nm) (DeleteStack (cloud n) ?nm) ?st1 = (r', ?st2)"
    using del by (simp add: invoke_def)
  show "prefix (tr1 @ [(Call_ScalePool ?np 0, r)]) tr'"
  proof (cases r)
    case (Some e)
    with run inv show ?thesis by (auto simp: Let_def)
  next
    case None
    show ?thesis
    proof (cases r')
      case (Some e)
      with run inv inv2 None show ?thesis by (auto simp: Let_def)
    next
      case N: None
      with run inv inv2 None have "decommission n rest ?st2 = (res, (w', tr'))"
        by (simp add: Let_def)
      from decommission_shape[OF this] None show ?thesis by (auto simp: prefix_def)
    qed
  qed
  show "\<exists>r'. prefix (tr1 @ [(Call_ScalePool ?np 0, None), (Call_DeleteStack ?nm, r')]) tr'" if "r = None"
  proof (cases r')
    case (Some e)
    with run inv inv2 that show ?thesis by (auto simp: Let_def)
  next
    case N: None
    with run inv inv2 that have "decommission n rest ?st2 = (res, (w', tr'))"
      by (simp add: Let_def)
    from decommission_shape[OF this] that N show ?thesis by (auto simp: prefix_def)
  qed
qed

text \<open>
  Claim C10 fails as stated. The stack without a name tag is orphaned in both runs, and
  \<^verbatim>\<open>Reconcile\<close> does not proceed to drain and delete it. In the first run the
  orphaned stack of the pool \<open>old\<close> is listed before it and the drain of \<open>old\<close>
  fails: \<^verbatim>\<open>Reconcile\<close> returns there, the stack without a name tag is neither
  drained nor deleted and stays live. In the second run it is the only live stack and
  its own drain fails: it is not deleted.
\<close>

theorem untagged_stack_not_decommissioned_counterexample:
  "nodePoolTagKey \<notin> set (map (\<lambda>tag. aws_StringValue (Key tag)) (Tags untagged_stack))
   \<and> untagged_stack \<in> set (orphanedNodePoolStacks
         [demo_stack ''nodepool-old'' ''old'', untagged_stack] [demo_pool ''keep'' ''none''])
   \<and> fst (Reconcile (demo_provisioner [''old''] [demo_pool ''keep'' ''none''])
        (demo_world [demo_stack ''nodepool-old'' ''old'', untagged_stack], []))
       = Some (Foreign ''scaling failed'')
   \<and> snd (snd (Reconcile (demo_provisioner [''old''] [demo_pool ''keep'' ''none''])
        (demo_world [demo_stack ''nodepool-old'' ''old'', untagged_stack], [])))
       = [(Call_ListStacks, None),
          (Call_ScalePool (nodePoolStackToNodePool (demo_stack ''nodepool-old'' ''old'')) 0,
           Some (Foreign ''scaling failed''))]
   \<and> w_stacks (fst (snd (Reconcile (demo_provisioner [''old''] [demo_pool ''keep'' ''none''])
        (demo_world [demo_stack ''nodepool-old'' ''old'', untagged_stack], []))))
       = [demo_stack ''nodepool-old'' ''old'', untagged_stack]
   \<and> untagged_stack \<in> set (orphanedNodePoolStacks [untagged_stack] [demo_pool ''keep'' ''none''])
   \<and> fst (Reconcile (demo_provisioner [[]] [demo_pool ''keep'' ''none''])
        (demo_world [untagged_stack], []))
       = Some (Foreign ''scaling failed'')
   \<and> snd (snd (Reconcile (demo_provisioner [[]] [demo_pool ''keep'' ''none''])
        (demo_world [untagged_stack], [])))
       = [(Call_ListStacks, None),
          (Call_ScalePool (nodePoolStackToNodePool untagged_stack) 0,
           Some (Foreign ''scaling failed''))]
   \<and> w_stacks (fst (snd (Reconcile (demo_provisioner [[]] [demo_pool ''keep'' ''none''])
        (demo_world [untagged_stack], []))))
       = [untagged_stack]"
  by code_simp

text \<open>
  Claim C10 as amended. A listed stack without a name tag is read as a pool with the
  empty name, and when no desired pool has the empty name the stack is orphaned. Once
  the orphaned stacks before it are decommissioned without error,
  \<^verbatim>\<open>Reconcile\<close> scales its pool to zero and, when that succeeds, calls
  \<^verbatim>\<open>DeleteStack\<close> with the name of the stack.
\<close>

theorem untagged_stack_is_orphaned:
  assumes untagged: "\<forall>tag\<in>set (Tags stack). aws_StringValue (Key tag) \<noteq> nodePoolTagKey"
      and live: "stack \<in> set stacks"
      and desired: "[] \<notin> Name ` set (NodePools (Cluster n))"
      and list: "ListStacks (cloud n) (reconcileTags n) w = (Inr stacks, w0)"
      and run: "Reconcile n (w, tr) = (res, (w', tr'))"
  shows "Name (nodePoolStackToNodePool stack) = []
       \<and> stack \<in> set (orphanedNodePoolStacks stacks (NodePools (Cluster n)))
       \<and> (\<forall>pre rest w1 tr1 r w2.
            orphanedNodePoolStacks stacks (NodePools (Cluster n)) = pre @ stack # rest \<longrightarrow>
            decommission n pre (w0, tr @ [(Call_ListStacks, None)]) = (None, (w1, tr1)) \<longrightarrow>
            ScalePool (cloud n) (nodePoolStackToNodePool stack) 0 w1 = (r, w2) \<longrightarrow>
            prefix (tr1 @ [(Call_ScalePool (nodePoolStackToNodePool stack) 0, r)]) tr' \<and>
            (r = None \<longrightarrow>
               (\<exists>r'. prefix (tr1 @ [(Call_ScalePool (nodePoolStackToNodePool stack) 0, None),
                  (Call_DeleteStack (aws_StringValue (StackName stack)), r')]) tr')))"
proof (intro conjI allI impI)
  show name: "Name (nodePoolStackToNodePool stack) = []"
    using readTags_no_name_tag[OF untagged, of emptyNodePool]
    by (simp add: nodePoolStackToNodePool_def emptyNodePool_def)
  show "stack \<in> set (orphanedNodePoolStacks stacks (NodePools (Cluster n)))"
    using live desired name by (simp add: orphanedNodePoolStacks_filter)
next
  fix pre rest w1 tr1 r w2
  assume split: "orphanedNodePoolStacks stacks (NodePools (Cluster n)) = pre @ stack # rest"
    and pre: "decommission n pre (w0, tr @ [(Call_ListStacks, None)]) = (None, (w1, tr1))"
    and drain: "ScalePool (cloud n) (nodePoolStackToNodePool stack) 0 w1 = (r, w2)"
  from Reconcile_listed[OF list] run split
  have dec: "decommission n (pre @ stack # rest) (w0, tr @ [(Call_ListStacks, None)]) =
               (res, (w', tr'))"
    by simp
  show "prefix (tr1 @ [(Call_ScalePool (nodePoolStackToNodePool stack) 0, r)]) tr'"
    by (rule decommission_reaches(1)[OF pre dec drain])
  show "\<exists>r'. prefix (tr1 @ [(Call_ScalePool (nodePoolStackToNodePool stack) 0, None),
                  (Call_DeleteStack (aws_StringValue (StackName stack)), r')]) tr'" if "r = None"
    by (rule decommission_reaches(2)[OF pre dec drain that])
qed

text \<open>
  The theorem on the in-memory provider: the only live stack has the role tag and no
  name tag; the run drains the pool with the empty name and deletes the stack.
\<close>

theorem untagged_stack_is_orphaned_witness:
  "Name (nodePoolStackToNodePool untagged_stack) = []
   \<and> untagged_stack \<in> set (orphanedNodePoolStacks [untagged_stack] [demo_pool ''keep'' ''none''])
   \<and> (\<exists>r'. prefix [(Call_ListStacks, None),
                 (Call_ScalePool (nodePoolStackToNodePool untagged_stack) 0, None),
                 (Call_DeleteStack ''nodepool-x'', r')]
          (snd (snd (Reconcile (demo_provisioner [] [demo_pool ''keep'' ''none''])
                       (demo_world [untagged_stack], [])))))"
proof -
  let ?n = "demo_provisioner [] [demo_pool ''keep'' ''none'']"
  let ?w = "demo_world [untagged_stack]"
  have untagged: "\<forall>tag\<in>set (Tags untagged_stack). aws_StringValue (Key tag) \<noteq> nodePoolTagKey"
    by (simp add: untagged_stack_def aws_StringValue_def nodePoolTagKey_def nodePoolRoleTagKey_def)
  have live: "untagged_stack \<in> set [untagged_stack]" by simp
  have desired: "[] \<notin> Name ` set (NodePools (Cluster ?n))"
    by (simp add: demo_provisioner_def demo_pool_def)
  have list: "ListStacks (cloud ?n) (reconcileTags ?n) ?w = (Inr [untagged_stack], ?w)"
    by (simp add: demo_provisioner_def mem_cloud_def demo_world_def)
  obtain res w' tr' where run: "Reconcile ?n (?w, []) = (res, (w', tr'))"
    by (metis surj_pair)
  note main = untagged_stack_is_orphaned[OF untagged live desired list run]
  have name: "Name (nodePoolStackToNodePool untagged_stack) = []"
    and mem: "untagged_stack \<in> set (orphanedNodePoolStacks [untagged_stack] (NodePools (Cluster ?n)))"
    using main by blast+
  have pools: "NodePools (Cluster ?n) = [demo_pool ''keep'' ''none'']"
    by (simp add: demo_provisioner_def)
  have split: "orphanedNodePoolStacks [untagged_stack] (NodePools (Cluster ?n)) =
                 [] @ untagged_stack # []"
    using name unfolding pools by (simp add: demo_pool_def)
  have pre: "decommission ?n [] (?w, [] @ [(Call_ListStacks, None)]) =
               (None, (?w, [(Call_ListStacks, None)]))"
    by simp
  have drain: "ScalePool (cloud ?n) (nodePoolStackToNodePool untagged_stack) 0 ?w = (None, ?w)"
    by (simp add: demo_provisioner_def mem_cloud_def mem_ScalePool_def)
  from main split pre drain
  have "\<exists>r'. prefix ([(Call_ListStacks, None)] @
                 [(Call_ScalePool (nodePoolStackToNodePool untagged_stack) 0, None),
                  (Call_DeleteStack (aws_StringValue (StackName untagged_stack)), r')]) tr'"
    by blast
  then have "\<exists>r'. prefix [(Call_ListStacks, None),
                 (Call_ScalePool (nodePoolStackToNodePool untagged_stack) 0, None),
                 (Call_DeleteStack ''nodepool-x'', r')] tr'"
    by (simp add: untagged_stack_def aws_StringValue_def)
  with name mem run pools show ?thesis by simp
qed

section \<open>Properties of the rendering pipeline\<close>

lemma template_Execute_missing_key:
  "FieldNode key \<in> set t \<Longrightarrow> d key = None \<Longrightarrow>
     \<exists>err. template_Execute action MissingKeyError t d = Inl err"
proof (induction t)
  case Nil
  then show ?case by simp
next
  case (Cons nd t)
  show ?case
  proof (cases "evalNode action MissingKeyError nd d")
    case (Inl err)
    then show ?thesis by simp
  next
    case (Inr v)
    have "nd \<noteq> FieldNode key"
    proof
      assume "nd = FieldNode key"
      with Cons.prems(2) have "evalNode action MissingKeyError nd d
                                 = Inl (Foreign ''map has no entry for key'')"
        by (simp add: evalNode_def)
      with Inr show False by simp
    qed
    with Cons.prems(1) have "FieldNode key \<in> set t" by simp
    with Cons.IH Cons.prems(2) obtain err
      where "template_Execute action MissingKeyError t d = Inl err" by blast
    with Inr show ?thesis by simp
  qed
qed

text \<open>
  Claim C7 fails as stated. The user data template of the profile \<open>indexed\<close> reads the
  spot price with the builtin \<^verbatim>\<open>index\<close>; rendered with a map of values without
  that key, \<^verbatim>\<open>renderTemplate\<close> succeeds, with the empty string in the place of
  the value.
\<close>

theorem renderTemplate_index_counterexample:
  "userDataParams \<lparr>ID = ''kube-1'', Region = ''eu-central-1'', NodePools = []\<rparr>
      (demo_pool ''a'' ''none'') Map.empty [''Values'', ''spot_price''] = None
   \<and> renderTemplate demo_host ''/cfg/indexed/userdata.clc.yaml''
       (userDataParams \<lparr>ID = ''kube-1'', Region = ''eu-central-1'', NodePools = []\<rparr>
          (demo_pool ''a'' ''none'') Map.empty)
     = Inr ''price=''"
  by (simp add: renderTemplate_def demo_host_def userDataParams_def evalNode_def)

text \<open>
  Claim C7 as amended. When the template file is read and parsed, and the template has
  a reference by a chain of names to a key that the data does not define,
  \<^verbatim>\<open>renderTemplate\<close> returns an error; it returns no text, so none with the key
  replaced by the empty string.
\<close>

theorem renderTemplate_missing_key_fails:
  assumes "ioutil_ReadFile h templateFile = Inr content"
      and "template_Parse h content = Inr t"
      and "FieldNode key \<in> set t"
      and "d key = None"
  shows "(\<exists>err. renderTemplate h templateFile d = Inl err)
       \<and> (\<forall>out. renderTemplate h templateFile d \<noteq> Inr out)"
proof -
  from template_Execute_missing_key[of key t d "template_Action h", OF assms(3,4)] obtain err
    where "template_Execute (template_Action h) MissingKeyError t d = Inl err" by blast
  with assms(1,2) have "renderTemplate h templateFile d = Inl err"
    by (simp add: renderTemplate_def)
  then show ?thesis by simp
qed

text \<open>
  The user data template of the example reads \<open>.Values.spot_price\<close>; rendered with a map
  of values without that key it fails.
\<close>

theorem renderTemplate_missing_key_fails_witness:
  "renderTemplate demo_host ''/cfg/worker/userdata.clc.yaml''
     (userDataParams \<lparr>ID = ''kube-1'', Region = ''eu-central-1'', NodePools = []\<rparr>
        (demo_pool ''a'' ''none'') Map.empty)
   = Inl (Foreign ''map has no entry for key'')"
proof -
  let ?d = "userDataParams \<lparr>ID = ''kube-1'', Region = ''eu-central-1'', NodePools = []\<rparr>
              (demo_pool ''a'' ''none'') Map.empty"
  let ?t = "[TextNode ''price='', FieldNode [''Values'', ''spot_price'']]"
  have read: "ioutil_ReadFile demo_host ''/cfg/worker/userdata.clc.yaml'' = Inr ''U''"
    by (simp add: demo_host_def)
  have parse: "template_Parse demo_host ''U'' = Inr ?t"
    by (simp add: demo_host_def)
  have ref: "FieldNode [''Values'', ''spot_price''] \<in> set ?t" by simp
  have absent: "?d [''Values'', ''spot_price''] = None"
    by (simp add: userDataParams_def)
  from renderTemplate_missing_key_fails[of demo_host _ _ ?t "[''Values'', ''spot_price'']" ?d, OF read parse ref absent]
  obtain err where err: "renderTemplate demo_host ''/cfg/worker/userdata.clc.yaml'' ?d = Inl err"
    by blast
  moreover have "renderTemplate demo_host ''/cfg/worker/userdata.clc.yaml'' ?d
                   = Inl (Foreign ''map has no entry for key'')"
    using read parse absent by (simp add: renderTemplate_def evalNode_def)
  ultimately show ?thesis by simp
qed

section \<open>Properties of Provision\<close>

lemma resolveSpotPrice_switch:
  "resolveSpotPrice n nodePool vals =
     (case discountSwitch n nodePool of
        Inl err \<Rightarrow> (Some err, vals(''spot_price'' \<mapsto> []))
      | Inr None \<Rightarrow> (None, vals(''spot_price'' \<mapsto> []))
      | Inr (Some onDemandPrice) \<Rightarrow> (None, vals(''spot_price'' \<mapsto> onDemandPrice)))"
  by (simp add: resolveSpotPrice_def discountSwitch_def Let_def split: option.splits)

lemma generateNodePoolStackTemplate_stages:
  "generateNodePoolStackTemplate n nodePool vals st =
     (case prepareStage n nodePool vals st of
        (Inl err, st1) \<Rightarrow> (Inl err, st1)
      | (Inr (profilePath, userData), st1) \<Rightarrow>
          (stackStage n nodePool profilePath userData vals, st1))"
  by (simp add: generateNodePoolStackTemplate_def prepareStage_def stackStage_def Let_def
      split: sum.splits prod.splits)

lemma provisionNodePool_apply:
  "generateNodePoolStackTemplate n nodePool vals1 st = (Inr template, st1) \<Longrightarrow>
   resolveSpotPrice n nodePool vals = (None, vals1) \<Longrightarrow>
     provisionNodePool n nodePool vals st =
       (fst (applyStage n nodePool template st1), vals1, snd (applyStage n nodePool template st1))"
  by (simp add: provisionNodePool_def applyStage_def Let_def split: prod.splits option.splits)

text \<open>
  A goroutine that takes its steps from the write of line 135 on, while no write is in
  progress and no other goroutine takes a step, does what \<^verbatim>\<open>provisionTask\<close> says:
  seven steps take it to its end.
\<close>

lemma task_alone:
  assumes i: "i < length (c_tasks c)"
      and at: "c_tasks c ! i = (nodePool, AtReset)"
      and quiet: "\<not> c_writing c"
  shows "runSteps n (replicate 7 i) c = Inr (afterTask n i nodePool c)"
proof (cases "discountSwitch n nodePool")
  case (Inl err)
  then have "provisionTask n nodePool (c_values c) (c_state c) =
               (wrapError nodePool (Some err), (c_values c)(''spot_price'' \<mapsto> []), c_state c)"
    by (simp add: provisionTask_def provisionNodePool_def resolveSpotPrice_switch wrapError_def)
  with Inl i at quiet show ?thesis
    by (simp add: eval_nat_numeral afterTask_def taskStep_def beginWrite_def endWrite_def goto_def)
next
  case (Inr w)
  define vals1 where "vals1 = (case w of None \<Rightarrow> (c_values c)(''spot_price'' \<mapsto> [])
                                | Some price \<Rightarrow> (c_values c)(''spot_price'' \<mapsto> price))"
  have res: "resolveSpotPrice n nodePool (c_values c) = (None, vals1)"
    using Inr by (simp add: resolveSpotPrice_switch vals1_def split: option.splits)
  have steps: "runSteps n (replicate 7 i) c =
     runSteps n (replicate (case w of None \<Rightarrow> 4 | Some price \<Rightarrow> 3) i)
       (c\<lparr>c_values := vals1, c_writing := False, c_tasks := (c_tasks c)[i := (nodePool, AtPrepare)]\<rparr>)"
    using Inr i at quiet
    by (cases w)
       (simp_all add: eval_nat_numeral vals1_def taskStep_def beginWrite_def endWrite_def goto_def)
  let ?c2 = "c\<lparr>c_values := vals1, c_writing := False,
               c_tasks := (c_tasks c)[i := (nodePool, AtPrepare)]\<rparr>"
  obtain pr st1 where prep: "prepareStage n nodePool vals1 (c_state c) = (pr, st1)"
    by (meson surj_pair)
  show ?thesis
  proof (cases pr)
    case (Inl err)
    with prep have "generateNodePoolStackTemplate n nodePool vals1 (c_state c) = (Inl err, st1)"
      by (simp add: generateNodePoolStackTemplate_stages)
    with res have "provisionTask n nodePool (c_values c) (c_state c) =
                     (wrapError nodePool (Some err), vals1, st1)"
      by (simp add: provisionTask_def provisionNodePool_def wrapError_def)
    with Inl prep i quiet show ?thesis
      unfolding steps
      by (cases w) (simp_all add: eval_nat_numeral afterTask_def taskStep_def beginRead_def goto_def)
  next
    case (Inr pu)
    obtain profilePath userData where pu: "pu = (profilePath, userData)" by force
    show ?thesis
    proof (cases "stackStage n nodePool profilePath userData vals1")
      case (Inl err)
      with prep Inr pu
      have "generateNodePoolStackTemplate n nodePool vals1 (c_state c) = (Inl err, st1)"
        by (simp add: generateNodePoolStackTemplate_stages)
      with res have "provisionTask n nodePool (c_values c) (c_state c) =
                       (wrapError nodePool (Some err), vals1, st1)"
        by (simp add: provisionTask_def provisionNodePool_def wrapError_def)
      with Inl Inr pu prep i quiet show ?thesis
        unfolding steps
        by (cases w) (simp_all add: eval_nat_numeral afterTask_def taskStep_def beginRead_def goto_def)
    next
      case template: (Inr template)
      obtain r st2 where app: "applyStage n nodePool template st1 = (r, st2)"
        by (meson surj_pair)
      from prep Inr pu template
      have "generateNodePoolStackTemplate n nodePool vals1 (c_state c) = (Inr template, st1)"
        by (simp add: generateNodePoolStackTemplate_stages)
      from provisionNodePool_apply[OF this res] app
      have "provisionNodePool n nodePool (c_values c) (c_state c) = (r, vals1, st2)"
        by simp
      then have "provisionTask n nodePool (c_values c) (c_state c) =
                   (wrapError nodePool r, vals1, st2)"
        by (cases r) (simp_all add: provisionTask_def wrapError_def)
      with template Inr pu prep app i quiet show ?thesis
        unfolding steps
        by (cases w) (simp_all add: eval_nat_numeral afterTask_def taskStep_def beginRead_def goto_def)
    qed
  qed
qed

text \<open>
  Claim C4, with two or more target pools. In the run where the second goroutine starts
  the write of line 135 while the first is inside its own, the runtime stops the process
  with the fatal error \<open>concurrent map writes\<close>: \<^verbatim>\<open>Provision\<close> returns neither
  the aggregate error nor success, and no result is collected.
\<close>

theorem Provision_stopped_by_concurrent_writes:
  assumes "2 \<le> length (getNonLegacyNodePools (settings n) (Cluster n))"
  shows "Provision n [0, 1] vals st = Halted (FatalError ''concurrent map writes'')"
proof -
  from assms obtain p ps where
    ps: "getNonLegacyNodePools (settings n) (Cluster n) = p # ps" "1 \<le> length ps"
    by (cases "getNonLegacyNodePools (settings n) (Cluster n)") auto
  from ps(2) obtain q rest where "ps = q # rest"
    by (cases ps) auto
  with ps(1) have pools: "getNonLegacyNodePools (settings n) (Cluster n) = p # q # rest"
    by simp
  show ?thesis
    by (simp add: Provision_def startConf_def pools taskStep_def beginWrite_def goto_def)
qed

text \<open>
  The example of the specification: three target pools, the second with an unknown
  instance type under \<open>SpotMaxPrice\<close>. One run is stopped by the runtime. In the run
  where the goroutines take their steps one after the other, \<^verbatim>\<open>Provision\<close>
  returns the error of the second pool, and the stacks of the first and the third are
  applied.
\<close>

theorem Provision_stopped_by_concurrent_writes_witness:
  "Provision (demo_provisioner [] demo_three) [0, 1] Map.empty (demo_world [], [])
     = Halted (FatalError ''concurrent map writes'')
   \<and> (case Provision (demo_provisioner [] demo_three)
              (replicate 7 0 @ replicate 7 1 @ replicate 7 2) Map.empty (demo_world [], []) of
         Returns r v s \<Rightarrow>
           r = Some (Errorf ''failed to provision node pool b: unknown instance type x9.huge'')
           \<and> map StackName (w_stacks (fst s)) =
               [Some ''nodepool-c-aws-123-eu-central-1-kube-1'',
                Some ''nodepool-a-aws-123-eu-central-1-kube-1'']
       | Halted h \<Rightarrow> False
       | Waiting \<Rightarrow> False)"
proof
  have "2 \<le> length (getNonLegacyNodePools (settings (demo_provisioner [] demo_three))
                       (Cluster (demo_provisioner [] demo_three)))"
    by (simp add: demo_provisioner_def demo_settings_def demo_three_def)
  then show "Provision (demo_provisioner [] demo_three) [0, 1] Map.empty (demo_world [], [])
     = Halted (FatalError ''concurrent map writes'')"
    by (rule Provision_stopped_by_concurrent_writes)
qed code_simp

section \<open>The map of values is shared\<close>

text \<open>
  Claim C2, at a cluster with a pool \<open>s\<close> of strategy \<open>SpotMaxPrice\<close> and a pool
  \<open>p\<close> of strategy \<open>None\<close>, and a caller's map without any key. No copy is made.
  When the goroutine of \<open>s\<close> has taken all its steps and the one of \<open>p\<close> none, the
  goroutine of \<open>p\<close> is about to start with the caller's map, which holds the price
  of \<open>s\<close>; the errors sent are the ones of \<^verbatim>\<open>provisionTask\<close> for \<open>s\<close> on the
  caller's map and for \<open>p\<close> on the map that \<open>s\<close> left; and when
  \<^verbatim>\<open>Provision\<close> returns the caller's map has the key \<open>spot_price\<close>. When the
  write of \<open>p\<close> falls between the write of \<open>s\<close> and the rendering for \<open>s\<close>, as in
  the last run, the user data uploaded for \<open>s\<close>, and applied with its stack, has the
  empty price of \<open>p\<close> in the place of its own.
\<close>

theorem Provision_shares_values:
  "(Map.empty :: Values) ''spot_price'' = None
   \<and> fst (snd (provisionTask (demo_provisioner [] demo_two)
                 (demo_pool ''s'' ''spot_max_price'') Map.empty (demo_world [], []))) ''spot_price''
       = Some ''0.115''
   \<and> (case runSteps (demo_provisioner [] demo_two) (replicate 7 0)
              (startConf (demo_provisioner [] demo_two) Map.empty (demo_world [], [])) of
         Inr c \<Rightarrow>
           c_values c ''spot_price'' = Some ''0.115''
           \<and> c_tasks c = [(demo_pool ''s'' ''spot_max_price'', Finished),
                           (demo_pool ''p'' ''none'', AtReset)]
       | Inl h \<Rightarrow> False)
   \<and> (case runSteps (demo_provisioner [] demo_two) (replicate 7 0 @ replicate 7 1)
              (startConf (demo_provisioner [] demo_two) Map.empty (demo_world [], [])) of
         Inr c \<Rightarrow>
           c_errorsc c =
             [(demo_pool ''s'' ''spot_max_price'',
                 fst (provisionTask (demo_provisioner [] demo_two)
                        (demo_pool ''s'' ''spot_max_price'') Map.empty (demo_world [], []))),
              (demo_pool ''p'' ''none'',
                 fst (provisionTask (demo_provisioner [] demo_two) (demo_pool ''p'' ''none'')
                        (fst (snd (provisionTask (demo_provisioner [] demo_two)
                           (demo_pool ''s'' ''spot_max_price'') Map.empty (demo_world [], []))))
                        (snd (snd (provisionTask (demo_provisioner [] demo_two)
                           (demo_pool ''s'' ''spot_max_price'') Map.empty (demo_world [], []))))))]
       | Inl h \<Rightarrow> False)
   \<and> (case Provision (demo_provisioner [] demo_two) (replicate 7 0 @ replicate 7 1)
              Map.empty (demo_world [], []) of
         Returns r v s \<Rightarrow> v ''spot_price'' = Some []
       | Halted h \<Rightarrow> False
       | Waiting \<Rightarrow> False)
   \<and> snd (resolveSpotPrice (demo_provisioner [] demo_two) (demo_pool ''p'' ''none'')
           (snd (resolveSpotPrice (demo_provisioner [] demo_two)
                  (demo_pool ''s'' ''spot_max_price'') Map.empty))) ''spot_price''
       = Some []
   \<and> snd (snd (generateNodePoolStackTemplate (demo_provisioner [] demo_two)
                 (demo_pool ''s'' ''spot_max_price'')
                 (snd (resolveSpotPrice (demo_provisioner [] demo_two) (demo_pool ''p'' ''none'')
                    (snd (resolveSpotPrice (demo_provisioner [] demo_two)
                       (demo_pool ''s'' ''spot_max_price'') Map.empty))))
                 (demo_world [], [])))
       = [(Call_createS3Bucket ''bucket'', None),
          (Call_s3Upload ''bucket'' ''70726963653d.userdata'' ''price='', None)]
   \<and> (case Provision (demo_provisioner [] demo_two) [0, 0, 0, 0, 1, 1, 0, 0, 0, 1, 1, 1, 1]
              Map.empty (demo_world [], []) of
         Returns r v s \<Rightarrow>
           take 2 (snd s) =
             [(Call_createS3Bucket ''bucket'', None),
              (Call_s3Upload ''bucket'' ''70726963653d.userdata'' ''price='', None)]
           \<and> (case fst (snd s ! 2) of
                 Call_applyStack stackName template tags \<Rightarrow>
                   stackName = ''nodepool-s-aws-123-eu-central-1-kube-1''
                   \<and> template = ''userdata=source: s3://bucket/70726963653d.userdata''
               | _ \<Rightarrow> False)
       | Halted h \<Rightarrow> False
       | Waiting \<Rightarrow> False)"
  by code_simp

end
